theory Spec2Isabelle
  imports Main "HOL-Library.Char_ord" "HOL-Library.List_Lexorder" "HOL-Library.Multiset"
begin

section \<open>Form values\<close>

text \<open>
  Every handler of \<^verbatim>\<open>app.py\<close> reads its arguments from the submitted form as text
  and passes them through \<^verbatim>\<open>str.strip\<close>, \<^verbatim>\<open>str.isdigit\<close> and \<^verbatim>\<open>int\<close>. A \<open>char\<close> is
  a byte, and the three are modelled as they act on ASCII text: \<^verbatim>\<open>strip\<close> removes the
  ASCII white space, \<^verbatim>\<open>isdigit\<close> holds of the non-empty strings of the digits 0 to 9,
  and \<^verbatim>\<open>int\<close>, which is only ever applied to a string that passed \<^verbatim>\<open>isdigit\<close>, gives
  the decimal value of a digit string.

  Beyond ASCII the Python functions do more: \<^verbatim>\<open>strip\<close> also removes the white space of
  Unicode, \<^verbatim>\<open>isdigit\<close> also accepts the digits of other scripts and the superscript
  digits, and \<^verbatim>\<open>int\<close> raises on the latter; \<^verbatim>\<open>int\<close> also raises on a string of more
  digits than the interpreter's limit, 4300 unless configured otherwise. \<open>ascii_field\<close>
  holds of the form values on which the model and Python agree: ASCII text of at most
  4300 characters. The theorem on the outcomes of a rating, whose truth depends on what
  counts as a digit string, is stated for such score fields; the other theorems fix their
  numeric fields by a hypothesis or hold of the refusals whatever the text is.
\<close>

definition py_isspace :: "char \<Rightarrow> bool" where
  "py_isspace c = (c \<in> set [CHR 0x09, CHR 0x0A, CHR 0x0B, CHR 0x0C, CHR 0x0D,
                               CHR 0x1C, CHR 0x1D, CHR 0x1E, CHR 0x1F, CHR 0x20])"

definition py_strip :: "string \<Rightarrow> string" where
  "py_strip s = rev (dropWhile py_isspace (rev (dropWhile py_isspace s)))"

definition py_isdigit :: "string \<Rightarrow> bool" where
  "py_isdigit s = (s \<noteq> [] \<and> list_all (\<lambda>c. c \<in> set ''0123456789'') s)"

definition py_int :: "string \<Rightarrow> int" where
  "py_int s = foldl (\<lambda>a c. 10 * a + (int (of_char c) - 48)) 0 s"


section \<open>Tables\<close>

text \<open>
  The two SQLite databases (\<^verbatim>\<open>Users.db\<close>, \<^verbatim>\<open>Cars.db\<close>) are one record of tables;
  a table is the list of its rows in insertion order. Only the columns read or written
  by the transaction, rating, messaging, favorite and verification handlers are kept:
  the descriptive columns of a user and of a car, the \<^verbatim>\<open>car_images\<close> and the
  \<^verbatim>\<open>recent_views\<close> tables do not occur in them. Status columns are \<^verbatim>\<open>TEXT\<close>, and
  so are timestamps (\<^verbatim>\<open>datetime.utcnow().isoformat()\<close>, passed to the model as the
  argument \<open>now\<close>).
\<close>

definition CAR_STATUS_ACTIVE :: string where
  "CAR_STATUS_ACTIVE = ''active''"

definition CAR_STATUS_COMPLETED :: string where
  "CAR_STATUS_COMPLETED = ''completed''"

record user =
  u_id :: int
  u_username :: string
  u_verified :: int
  u_is_admin :: int

record car =
  c_id :: int
  c_user_id :: int
  c_status :: string

record transaction_row =
  t_id :: int
  t_car_id :: int
  t_seller_id :: int
  t_buyer_id :: int
  t_status :: string
  t_completed_at :: string

record rating =
  r_id :: int
  r_transaction_id :: int
  r_seller_id :: int
  r_buyer_id :: int
  r_reliability :: int
  r_accuracy :: int
  r_communication :: int
  r_product :: int
  r_comment :: string
  r_created_at :: string

record thread =
  th_id :: int
  th_car_id :: int
  th_seller_id :: int
  th_buyer_id :: int
  th_created_at :: string

record message =
  m_id :: int
  m_thread_id :: int
  m_sender_id :: int
  m_recipient_id :: int
  m_body :: string
  m_created_at :: string
  m_read_at :: "string option"

record favorite =
  f_user_id :: int
  f_car_id :: int
  f_created_at :: string

text \<open>
  The \<open>_seq\<close> fields are the rows of \<^verbatim>\<open>sqlite_sequence\<close>: every table with an
  \<^verbatim>\<open>INTEGER PRIMARY KEY AUTOINCREMENT\<close> remembers the largest rowid it ever gave out.
\<close>

record db =
  users :: "user list"
  cars :: "car list"
  transactions :: "transaction_row list"
  transactions_seq :: int
  ratings :: "rating list"
  ratings_seq :: int
  threads :: "thread list"
  threads_seq :: int
  messages :: "message list"
  messages_seq :: int
  favorites :: "favorite list"

text \<open>
  The rowid of an inserted row: one more than the largest rowid in the table and than the
  table's sequence.
\<close>

definition new_rowid :: "int \<Rightarrow> int list \<Rightarrow> int" where
  "new_rowid seq ids = fold max ids seq + 1"

section \<open>Outcomes\<close>

text \<open>
  A handler that refuses a request flashes a message and redirects without touching the
  database. The model returns the kind of the refusal; the flashed text is quoted beside
  each branch. \<open>Unauthenticated\<close> is the redirect to the login page when the session's
  user name resolves to no user.
\<close>

datatype error_kind = Unauthenticated | NotFound | Forbidden | InvalidState | ValidationError

datatype outcome = Done | Failed error_kind

section \<open>Lookups\<close>

definition get_user_by_username :: "db \<Rightarrow> string \<Rightarrow> user option" where
  "get_user_by_username s username =
     (if username = [] then None else find (\<lambda>u. u_username u = username) (users s))"

definition get_user_by_id :: "db \<Rightarrow> int \<Rightarrow> user option" where
  "get_user_by_id s user_id =
     (if user_id = 0 then None else find (\<lambda>u. u_id u = user_id) (users s))"

definition get_car_by_id :: "db \<Rightarrow> int \<Rightarrow> car option" where
  "get_car_by_id s car_id = find (\<lambda>c. c_id c = car_id) (cars s)"

definition get_transaction :: "db \<Rightarrow> int \<Rightarrow> transaction_row option" where
  "get_transaction s transaction_id = find (\<lambda>t. t_id t = transaction_id) (transactions s)"

definition admin_required :: "user option \<Rightarrow> bool" where
  "admin_required user = (case user of None \<Rightarrow> False | Some u \<Rightarrow> u_is_admin u \<noteq> 0)"

section \<open>Statements\<close>

definition set_car_status :: "int \<Rightarrow> string \<Rightarrow> car list \<Rightarrow> car list" where
  \<comment> \<open>\<^verbatim>\<open>UPDATE cars SET status = ? WHERE id = ?\<close>\<close>
  "set_car_status car_id st cs =
     map (\<lambda>c. if c_id c = car_id then c\<lparr>c_status := st\<rparr> else c) cs"

definition set_transaction_status ::
  "int \<Rightarrow> string \<Rightarrow> transaction_row list \<Rightarrow> transaction_row list" where
  \<comment> \<open>\<^verbatim>\<open>UPDATE transactions SET status = ? WHERE id = ?\<close>\<close>
  "set_transaction_status transaction_id st ts =
     map (\<lambda>t. if t_id t = transaction_id then t\<lparr>t_status := st\<rparr> else t) ts"

definition set_verified :: "int \<Rightarrow> int \<Rightarrow> user list \<Rightarrow> user list" where
  \<comment> \<open>\<^verbatim>\<open>UPDATE users SET verified = ? WHERE id = ?\<close>\<close>
  "set_verified user_id v us =
     map (\<lambda>u. if u_id u = user_id then u\<lparr>u_verified := v\<rparr> else u) us"

section \<open>Transactions\<close>

definition complete_car :: "db \<Rightarrow> string \<Rightarrow> int \<Rightarrow> string \<Rightarrow> string \<Rightarrow> outcome \<times> db" where
  "complete_car s username car_id buyer_id_field now =
     (case get_user_by_username s username of
        None \<Rightarrow> (Failed Unauthenticated, s)  \<comment> \<open>Please log in to manage listings.\<close>
      | Some user \<Rightarrow>
          (case get_car_by_id s car_id of
             None \<Rightarrow> (Failed NotFound, s)  \<comment> \<open>Listing not found.\<close>
           | Some car \<Rightarrow>
               if c_user_id car \<noteq> u_id user
               then (Failed Forbidden, s)  \<comment> \<open>You can only update your own listings.\<close>
               else
                 let buyer_id = py_strip buyer_id_field in
                 if \<not> py_isdigit buyer_id \<or> py_int buyer_id = u_id user
                 then (Failed ValidationError, s)  \<comment> \<open>Please select a valid buyer.\<close>
                 else
                   (case get_user_by_id s (py_int buyer_id) of
                      None \<Rightarrow> (Failed NotFound, s)  \<comment> \<open>Buyer not found.\<close>
                    | Some buyer \<Rightarrow>
                        let tid = new_rowid (transactions_seq s) (map t_id (transactions s)) in
                        (Done,
                         s\<lparr>cars := set_car_status car_id CAR_STATUS_COMPLETED (cars s),
                           transactions := transactions s @
                             [\<lparr>t_id = tid, t_car_id = car_id, t_seller_id = u_id user,
                               t_buyer_id = py_int buyer_id, t_status = ''pending'',
                               t_completed_at = now\<rparr>],
                           transactions_seq := tid\<rparr>))))"

definition confirm_transaction :: "db \<Rightarrow> string \<Rightarrow> int \<Rightarrow> outcome \<times> db" where
  "confirm_transaction s username transaction_id =
     (case get_user_by_username s username of
        None \<Rightarrow> (Failed Unauthenticated, s)
      | Some user \<Rightarrow>
          (case get_transaction s transaction_id of
             None \<Rightarrow> (Failed Forbidden, s)  \<comment> \<open>You can only confirm your own purchase.\<close>
           | Some tx \<Rightarrow>
               if t_buyer_id tx \<noteq> u_id user
               then (Failed Forbidden, s)  \<comment> \<open>You can only confirm your own purchase.\<close>
               else
                 (Done,
                  s\<lparr>transactions :=
                      set_transaction_status transaction_id ''completed'' (transactions s)\<rparr>)))"

definition cancel_transaction :: "db \<Rightarrow> string \<Rightarrow> int \<Rightarrow> outcome \<times> db" where
  "cancel_transaction s username transaction_id =
     (case get_user_by_username s username of
        None \<Rightarrow> (Failed Unauthenticated, s)
      | Some user \<Rightarrow>
          (case get_transaction s transaction_id of
             None \<Rightarrow> (Failed Forbidden, s)  \<comment> \<open>You can only cancel your own transaction.\<close>
           | Some tx \<Rightarrow>
               if t_buyer_id tx \<noteq> u_id user \<and> t_seller_id tx \<noteq> u_id user
               then (Failed Forbidden, s)  \<comment> \<open>You can only cancel your own transaction.\<close>
               else
                 (Done,
                  s\<lparr>transactions :=
                      set_transaction_status transaction_id ''canceled'' (transactions s),
                    cars := set_car_status (t_car_id tx) CAR_STATUS_ACTIVE (cars s)\<rparr>)))"

section \<open>Ratings\<close>

text \<open>
  \<^verbatim>\<open>INSERT INTO transaction_ratings ... ON CONFLICT(transaction_id) DO UPDATE SET ...\<close>:
  the column \<^verbatim>\<open>transaction_id\<close> is declared \<^verbatim>\<open>UNIQUE\<close>, so a row with the same
  transaction is a conflict and has its four scores and its comment replaced (its id,
  seller, buyer and creation time stay); without a conflict the row is appended.
\<close>

definition upsert_rating :: "rating \<Rightarrow> rating list \<Rightarrow> rating list" where
  "upsert_rating new rs =
     (if list_ex (\<lambda>r. r_transaction_id r = r_transaction_id new) rs
      then map (\<lambda>r. if r_transaction_id r = r_transaction_id new
                      then r\<lparr>r_reliability := r_reliability new,
                             r_accuracy := r_accuracy new,
                             r_communication := r_communication new,
                             r_product := r_product new,
                             r_comment := r_comment new\<rparr>
                      else r) rs
      else rs @ [new])"

definition score_ok :: "string \<Rightarrow> bool" where
  \<comment> \<open>\<^verbatim>\<open>score.isdigit() and 1 <= int(score) <= 5\<close>\<close>
  "score_ok score = (py_isdigit score \<and> 1 \<le> py_int score \<and> py_int score \<le> 5)"

text \<open>
  The rowid of the candidate row is drawn before the conflict is detected, so the
  sequence of the ratings table advances on the update path as well.
\<close>

definition rate_transaction ::
  "db \<Rightarrow> string \<Rightarrow> int \<Rightarrow> string \<Rightarrow> string \<Rightarrow> string \<Rightarrow> string \<Rightarrow> string \<Rightarrow> string
     \<Rightarrow> outcome \<times> db" where
  "rate_transaction s username transaction_id reliability_field accuracy_field
       communication_field product_field comment_field now =
     (case get_user_by_username s username of
        None \<Rightarrow> (Failed Unauthenticated, s)  \<comment> \<open>Please log in to leave a rating.\<close>
      | Some user \<Rightarrow>
          let reliability = py_strip reliability_field;
              accuracy = py_strip accuracy_field;
              communication = py_strip communication_field;
              product = py_strip product_field;
              comment = py_strip comment_field;
              scores = [reliability, accuracy, communication, product]
          in
          if \<not> list_all score_ok scores
          then (Failed ValidationError, s)  \<comment> \<open>All ratings must be between 1 and 5.\<close>
          else
            (case get_transaction s transaction_id of
               None \<Rightarrow> (Failed InvalidState, s)
                 \<comment> \<open>You can only rate your own completed purchases.\<close>
             | Some tx \<Rightarrow>
                 if t_buyer_id tx \<noteq> u_id user \<or> t_status tx \<noteq> ''completed''
                 then (Failed InvalidState, s)
                   \<comment> \<open>You can only rate your own completed purchases.\<close>
                 else
                   let rid = new_rowid (ratings_seq s) (map r_id (ratings s)) in
                   (Done,
                    s\<lparr>ratings := upsert_rating
                        \<lparr>r_id = rid, r_transaction_id = transaction_id,
                         r_seller_id = t_seller_id tx, r_buyer_id = t_buyer_id tx,
                         r_reliability = py_int reliability, r_accuracy = py_int accuracy,
                         r_communication = py_int communication, r_product = py_int product,
                         r_comment = comment, r_created_at = now\<rparr> (ratings s),
                      ratings_seq := rid\<rparr>)))"

definition admin_delete_rating :: "db \<Rightarrow> string \<Rightarrow> string \<Rightarrow> outcome \<times> db" where
  "admin_delete_rating s username rating_id_field =
     (if \<not> admin_required (get_user_by_username s username)
      then (Failed Forbidden, s)
      else
        let rating_id = py_strip rating_id_field in
        if \<not> py_isdigit rating_id then (Failed ValidationError, s)
        else (Done, s\<lparr>ratings := filter (\<lambda>r. r_id r \<noteq> py_int rating_id) (ratings s)\<rparr>))"

section \<open>Removing a listing\<close>

text \<open>
  \<^verbatim>\<open>remove_car_record\<close> is what \<^verbatim>\<open>delete_car\<close> and \<^verbatim>\<open>admin_delete_car\<close> call, and it
  is itself registered on the route \<^verbatim>\<open>/car/<int:car_id>/delete\<close>, before \<^verbatim>\<open>delete_car\<close>;
  so it is a request of its own below. The files of the images are outside the model.
\<close>

definition remove_car_record :: "db \<Rightarrow> int \<Rightarrow> bool \<times> db" where
  "remove_car_record s car_id =
     (case get_car_by_id s car_id of
        None \<Rightarrow> (False, s)
      | Some car \<Rightarrow>
          let tx_ids = map t_id (filter (\<lambda>t. t_car_id t = car_id) (transactions s)) in
          (True,
           s\<lparr>ratings :=
               (if tx_ids \<noteq> []
                then filter (\<lambda>r. r_transaction_id r \<notin> set tx_ids) (ratings s)
                else ratings s),
             transactions := filter (\<lambda>t. t_car_id t \<noteq> car_id) (transactions s),
             cars := filter (\<lambda>c. c_id c \<noteq> car_id) (cars s)\<rparr>))"

definition delete_car :: "db \<Rightarrow> string \<Rightarrow> int \<Rightarrow> outcome \<times> db" where
  "delete_car s username car_id =
     (case get_user_by_username s username of
        None \<Rightarrow> (Failed Unauthenticated, s)  \<comment> \<open>Please log in to manage listings.\<close>
      | Some user \<Rightarrow>
          (case get_car_by_id s car_id of
             None \<Rightarrow> (Failed NotFound, s)  \<comment> \<open>Listing not found.\<close>
           | Some car \<Rightarrow>
               if c_user_id car \<noteq> u_id user
               then (Failed Forbidden, s)  \<comment> \<open>You can only delete your own listings.\<close>
               else (Done, snd (remove_car_record s car_id))))"

definition admin_delete_car :: "db \<Rightarrow> string \<Rightarrow> string \<Rightarrow> outcome \<times> db" where
  "admin_delete_car s username car_id_field =
     (if \<not> admin_required (get_user_by_username s username)
      then (Failed Forbidden, s)
      else
        let car_id = py_strip car_id_field in
        if \<not> py_isdigit car_id then (Failed ValidationError, s)
        else (Done, snd (remove_car_record s (py_int car_id))))"

section \<open>Seller verification\<close>

definition completed_sales :: "db \<Rightarrow> int \<Rightarrow> nat" where
  \<comment> \<open>\<^verbatim>\<open>SELECT COUNT(*) FROM transactions WHERE seller_id = ? AND status = 'completed'\<close>\<close>
  "completed_sales s seller_id =
     length (filter (\<lambda>t. t_seller_id t = seller_id \<and> t_status t = ''completed'')
               (transactions s))"

definition verify_seller :: "db \<Rightarrow> string \<Rightarrow> string \<Rightarrow> outcome \<times> db" where
  "verify_seller s username agree =
     (case get_user_by_username s username of
        None \<Rightarrow> (Failed Unauthenticated, s)
      | Some user \<Rightarrow>
          if agree \<noteq> ''yes''
          then (Failed ValidationError, s)  \<comment> \<open>Please confirm the verification terms.\<close>
          else if completed_sales s (u_id user) < 5
          then (Failed InvalidState, s)
            \<comment> \<open>You need at least 5 completed transactions to verify.\<close>
          else (Done, s\<lparr>users := set_verified (u_id user) 1 (users s)\<rparr>))"

definition admin_verify_user :: "db \<Rightarrow> string \<Rightarrow> string \<Rightarrow> string \<Rightarrow> outcome \<times> db" where
  "admin_verify_user s username user_id_field value_field =
     (if \<not> admin_required (get_user_by_username s username)
      then (Failed Forbidden, s)
      else
        let user_id = py_strip user_id_field;
            val = py_strip value_field
        in
        if \<not> py_isdigit user_id then (Failed ValidationError, s)
        else
          (Done,
           s\<lparr>users := set_verified (py_int user_id) (if val = ''1'' then 1 else 0) (users s)\<rparr>))"

section \<open>Messaging\<close>

text \<open>
  \<^verbatim>\<open>fetchone\<close> on a query without \<^verbatim>\<open>ORDER BY\<close> is modelled as the first matching row
  in rowid order.
\<close>

definition get_or_create_thread :: "db \<Rightarrow> int \<Rightarrow> int \<Rightarrow> int \<Rightarrow> string \<Rightarrow> int \<times> db" where
  "get_or_create_thread s car_id seller_id buyer_id now =
     (case find (\<lambda>t. th_car_id t = car_id \<and> th_seller_id t = seller_id
                        \<and> th_buyer_id t = buyer_id) (threads s) of
        Some row \<Rightarrow> (th_id row, s)
      | None \<Rightarrow>
          let lastrowid = new_rowid (threads_seq s) (map th_id (threads s)) in
          (lastrowid,
           s\<lparr>threads := threads s @
               [\<lparr>th_id = lastrowid, th_car_id = car_id, th_seller_id = seller_id,
                 th_buyer_id = buyer_id, th_created_at = now\<rparr>],
             threads_seq := lastrowid\<rparr>))"

definition new_message :: "db \<Rightarrow> string \<Rightarrow> string \<Rightarrow> string \<Rightarrow> (error_kind + int) \<times> db" where
  "new_message s username car_id_arg now =
     (case get_user_by_username s username of
        None \<Rightarrow> (Inl Unauthenticated, s)
      | Some user \<Rightarrow>
          let car_id = py_strip car_id_arg in
          if \<not> py_isdigit car_id then (Inl ValidationError, s)
          else
            (case get_car_by_id s (py_int car_id) of
               None \<Rightarrow> (Inl NotFound, s)
             | Some car \<Rightarrow>
                 if c_user_id car = u_id user
                 then (Inl Forbidden, s)  \<comment> \<open>You cannot message yourself.\<close>
                 else
                   let (thread_id, s') =
                         get_or_create_thread s (c_id car) (c_user_id car) (u_id user) now
                   in (Inr thread_id, s')))"

definition get_thread :: "db \<Rightarrow> int \<Rightarrow> thread option" where
  "get_thread s thread_id = find (\<lambda>t. th_id t = thread_id) (threads s)"

text \<open>The handler \<^verbatim>\<open>message_thread\<close> with the method \<^verbatim>\<open>POST\<close>: sending a message.\<close>

definition message_thread_post :: "db \<Rightarrow> string \<Rightarrow> int \<Rightarrow> string \<Rightarrow> string \<Rightarrow> outcome \<times> db" where
  "message_thread_post s username thread_id body_field now =
     (case get_user_by_username s username of
        None \<Rightarrow> (Failed Unauthenticated, s)
      | Some user \<Rightarrow>
          (case get_thread s thread_id of
             None \<Rightarrow> (Failed NotFound, s)  \<comment> \<open>Thread not found.\<close>
           | Some thread \<Rightarrow>
               if th_seller_id thread \<noteq> u_id user \<and> th_buyer_id thread \<noteq> u_id user
               then (Failed NotFound, s)  \<comment> \<open>Thread not found.\<close>
               else
                 let body = py_strip body_field in
                 if body \<noteq> [] then
                   let recipient_id =
                         (if th_seller_id thread = u_id user then th_buyer_id thread
                          else th_seller_id thread);
                       mid = new_rowid (messages_seq s) (map m_id (messages s))
                   in
                   (Done,
                    s\<lparr>messages := messages s @
                        [\<lparr>m_id = mid, m_thread_id = thread_id, m_sender_id = u_id user,
                          m_recipient_id = recipient_id, m_body = body, m_created_at = now,
                          m_read_at = None\<rparr>],
                      messages_seq := mid\<rparr>)
                 else (Done, s)))"

definition mark_read :: "int \<Rightarrow> int \<Rightarrow> string \<Rightarrow> message list \<Rightarrow> message list" where
  \<comment> \<open>\<^verbatim>\<open>UPDATE messages SET read_at = ? WHERE thread_id = ? AND recipient_id = ? AND read_at IS NULL\<close>\<close>
  "mark_read thread_id recipient_id now ms =
     map (\<lambda>m. if m_thread_id m = thread_id \<and> m_recipient_id m = recipient_id
                    \<and> m_read_at m = None
               then m\<lparr>m_read_at := Some now\<rparr> else m) ms"

definition thread_messages :: "int \<Rightarrow> message list \<Rightarrow> message list" where
  \<comment> \<open>\<^verbatim>\<open>SELECT * FROM messages WHERE thread_id = ? ORDER BY created_at ASC\<close>; the timestamps
      are text, compared as text; rows with equal timestamps are kept in rowid order\<close>
  "thread_messages thread_id ms =
     sort_key m_created_at (filter (\<lambda>m. m_thread_id m = thread_id) ms)"

text \<open>The handler \<^verbatim>\<open>message_thread\<close> with the method \<^verbatim>\<open>GET\<close>: opening a thread.\<close>

definition message_thread_get ::
  "db \<Rightarrow> string \<Rightarrow> int \<Rightarrow> string \<Rightarrow> (error_kind + message list) \<times> db" where
  "message_thread_get s username thread_id now =
     (case get_user_by_username s username of
        None \<Rightarrow> (Inl Unauthenticated, s)
      | Some user \<Rightarrow>
          (case get_thread s thread_id of
             None \<Rightarrow> (Inl NotFound, s)  \<comment> \<open>Thread not found.\<close>
           | Some thread \<Rightarrow>
               if th_seller_id thread \<noteq> u_id user \<and> th_buyer_id thread \<noteq> u_id user
               then (Inl NotFound, s)  \<comment> \<open>Thread not found.\<close>
               else
                 let s' = s\<lparr>messages := mark_read thread_id (u_id user) now (messages s)\<rparr> in
                 (Inr (thread_messages thread_id (messages s')), s')))"

section \<open>Favorites\<close>

definition toggle_favorite :: "db \<Rightarrow> string \<Rightarrow> int \<Rightarrow> string \<Rightarrow> outcome \<times> db" where
  "toggle_favorite s username car_id now =
     (case get_user_by_username s username of
        None \<Rightarrow> (Failed Unauthenticated, s)  \<comment> \<open>Please log in to manage favorites.\<close>
      | Some user \<Rightarrow>
          (case get_car_by_id s car_id of
             None \<Rightarrow> (Failed NotFound, s)  \<comment> \<open>Listing not found.\<close>
           | Some car \<Rightarrow>
               if c_status car \<noteq> CAR_STATUS_ACTIVE
               then (Failed NotFound, s)  \<comment> \<open>Listing not found.\<close>
               else if list_ex (\<lambda>f. f_user_id f = u_id user \<and> f_car_id f = car_id) (favorites s)
               then
                 (Done,
                  s\<lparr>favorites :=
                      filter (\<lambda>f. \<not> (f_user_id f = u_id user \<and> f_car_id f = car_id))
                        (favorites s)\<rparr>)
               else
                 (Done,
                  s\<lparr>favorites := favorites s @
                      [\<lparr>f_user_id = u_id user, f_car_id = car_id, f_created_at = now\<rparr>]\<rparr>)))"

definition favorite_pairs :: "db \<Rightarrow> (int \<times> int) set" where
  "favorite_pairs s = set (map (\<lambda>f. (f_user_id f, f_car_id f)) (favorites s))"

section \<open>Requests\<close>

text \<open>
  One constructor for each handler above; \<open>step\<close> is the database after the request.
  The handlers that are left out (registration, login, the profile form, adding and
  editing a listing, the read-only pages) write none of the columns of the model except
  by inserting a user with \<^verbatim>\<open>verified = 0\<close> or a car with status \<^verbatim>\<open>active\<close>.
\<close>

datatype request =
    CompleteCar string int string string
  | ConfirmTransaction string int
  | CancelTransaction string int
  | RateTransaction string int string string string string string string
  | AdminDeleteRating string string
  | RemoveCarRecord int
  | DeleteCar string int
  | AdminDeleteCar string string
  | VerifySeller string string
  | AdminVerifyUser string string string
  | NewMessage string string string
  | MessageThreadPost string int string string
  | MessageThreadGet string int string
  | ToggleFavorite string int string

fun step :: "db \<Rightarrow> request \<Rightarrow> db" where
  "step s (CompleteCar u c b now) = snd (complete_car s u c b now)"
| "step s (ConfirmTransaction u t) = snd (confirm_transaction s u t)"
| "step s (CancelTransaction u t) = snd (cancel_transaction s u t)"
| "step s (RateTransaction u t r a c p cm now) = snd (rate_transaction s u t r a c p cm now)"
| "step s (AdminDeleteRating u r) = snd (admin_delete_rating s u r)"
| "step s (RemoveCarRecord c) = snd (remove_car_record s c)"
| "step s (DeleteCar u c) = snd (delete_car s u c)"
| "step s (AdminDeleteCar u c) = snd (admin_delete_car s u c)"
| "step s (VerifySeller u a) = snd (verify_seller s u a)"
| "step s (AdminVerifyUser u i v) = snd (admin_verify_user s u i v)"
| "step s (NewMessage u c now) = snd (new_message s u c now)"
| "step s (MessageThreadPost u t b now) = snd (message_thread_post s u t b now)"
| "step s (MessageThreadGet u t now) = snd (message_thread_get s u t now)"
| "step s (ToggleFavorite u c now) = snd (toggle_favorite s u c now)"

fun run :: "db \<Rightarrow> request list \<Rightarrow> db" where
  "run s [] = s"
| "run s (r # rs) = run (step s r) rs"

section \<open>Invariants\<close>

text \<open>The databases that \<^verbatim>\<open>init_db\<close> creates: the administrator and nothing else.\<close>

definition init_db :: db where
  "init_db =
     \<lparr>users = [\<lparr>u_id = 1, u_username = ''admin'', u_verified = 1, u_is_admin = 1\<rparr>],
      cars = [], transactions = [], transactions_seq = 0, ratings = [], ratings_seq = 0,
      threads = [], threads_seq = 0, messages = [], messages_seq = 0, favorites = []\<rparr>"

text \<open>Every rating belongs to no transaction other than completed ones.\<close>

definition rating_inv :: "db \<Rightarrow> bool" where
  "rating_inv s =
     list_all (\<lambda>r. list_all (\<lambda>t. t_id t = r_transaction_id r \<longrightarrow> t_status t = ''completed'')
                       (transactions s)) (ratings s)"

text \<open>
  What the schema and the sequence give: the transaction ids are distinct (the primary
  key), and no transaction and no rating mentions a transaction id beyond the sequence of
  the transactions table, from which the ids are drawn.
\<close>

definition transaction_ids_wf :: "db \<Rightarrow> bool" where
  "transaction_ids_wf s =
     (distinct (map t_id (transactions s))
      \<and> list_all (\<lambda>t. t_id t \<le> transactions_seq s) (transactions s)
      \<and> list_all (\<lambda>r. r_transaction_id r \<le> transactions_seq s) (ratings s))"

fun cancels_rated :: "db \<Rightarrow> request \<Rightarrow> bool" where
  "cancels_rated s (CancelTransaction u t) = list_ex (\<lambda>r. r_transaction_id r = t) (ratings s)"
| "cancels_rated s _ = False"

fun no_rated_cancel :: "db \<Rightarrow> request list \<Rightarrow> bool" where
  "no_rated_cancel s [] = True"
| "no_rated_cancel s (r # rs) = (\<not> cancels_rated s r \<and> no_rated_cancel (step s r) rs)"

text \<open>The \<^verbatim>\<open>UNIQUE\<close> constraint on \<^verbatim>\<open>transaction_ratings.transaction_id\<close>.\<close>

definition ratings_unique :: "db \<Rightarrow> bool" where
  "ratings_unique s = distinct (map r_transaction_id (ratings s))"

definition threads_unique :: "db \<Rightarrow> bool" where
  "threads_unique s =
     distinct (map (\<lambda>t. (th_car_id t, th_seller_id t, th_buyer_id t)) (threads s))"

definition verified_ids :: "db \<Rightarrow> int set" where
  "verified_ids s = u_id ` set (filter (\<lambda>u. u_verified u \<noteq> 0) (users s))"

fun is_admin_verify :: "request \<Rightarrow> bool" where
  "is_admin_verify (AdminVerifyUser u i v) = True"
| "is_admin_verify _ = False"

section \<open>Example databases\<close>

text \<open>A seller \<open>sam\<close> with one active listing, and two buyers \<open>bea\<close> and \<open>cy\<close>.\<close>

definition ex_db :: db where
  "ex_db =
     \<lparr>users = [\<lparr>u_id = 1, u_username = ''admin'', u_verified = 1, u_is_admin = 1\<rparr>,
               \<lparr>u_id = 2, u_username = ''sam'', u_verified = 0, u_is_admin = 0\<rparr>,
               \<lparr>u_id = 3, u_username = ''bea'', u_verified = 0, u_is_admin = 0\<rparr>,
               \<lparr>u_id = 4, u_username = ''cy'', u_verified = 0, u_is_admin = 0\<rparr>],
      cars = [\<lparr>c_id = 1, c_user_id = 2, c_status = ''active''\<rparr>],
      transactions = [], transactions_seq = 0, ratings = [], ratings_seq = 0,
      threads = [], threads_seq = 0, messages = [], messages_seq = 0, favorites = []\<rparr>"

text \<open>The same after \<open>sam\<close> has reserved the listing for \<open>bea\<close>.\<close>

definition ex_reserved :: db where
  "ex_reserved = snd (complete_car ex_db ''sam'' 1 ''3'' ''2024-05-01T10:00:00'')"

text \<open>Then \<open>bea\<close> cancels, and \<open>sam\<close> reserves the listing again, now for \<open>cy\<close>.\<close>

definition ex_canceled :: db where
  "ex_canceled = snd (cancel_transaction ex_reserved ''bea'' 1)"

definition ex_relisted :: db where
  "ex_relisted = snd (complete_car ex_canceled ''sam'' 1 ''4'' ''2024-05-03T08:15:00'')"

text \<open>The reserved listing after \<open>bea\<close> has confirmed the purchase.\<close>

definition ex_confirmed :: db where
  "ex_confirmed = snd (confirm_transaction ex_reserved ''bea'' 1)"

text \<open>And after \<open>bea\<close> has rated it.\<close>

definition ex_rated :: db where
  "ex_rated = snd (rate_transaction ex_confirmed ''bea'' 1 ''5'' ''4'' ''5'' ''3'' ''great''
                     ''2024-05-04T12:00:00'')"

text \<open>
  A conversation about the listing: \<open>bea\<close> asks, \<open>sam\<close> answers, \<open>bea\<close> reads the answer
  and asks again.
\<close>

definition ex_chat :: db where
  "ex_chat = run ex_db
     [NewMessage ''bea'' ''1'' ''2024-04-30T18:00:00'',
      MessageThreadPost ''bea'' 1 ''Is this still available?'' ''2024-04-30T18:00:40'',
      MessageThreadPost ''sam'' 1 ''Yes, it is.'' ''2024-04-30T18:05:00'',
      MessageThreadGet ''bea'' 1 ''2024-04-30T18:06:10'',
      MessageThreadPost ''bea'' 1 ''Can I see it on Friday?'' ''2024-04-30T18:07:00'']"

text \<open>
  Five completed sales of \<open>sam\<close>, and the same after \<open>sam\<close> has asked for verification.
\<close>

definition ex_sales :: db where
  "ex_sales =
     ex_db\<lparr>cars := [\<lparr>c_id = 1, c_user_id = 2, c_status = ''completed''\<rparr>,
                     \<lparr>c_id = 2, c_user_id = 2, c_status = ''completed''\<rparr>,
                     \<lparr>c_id = 3, c_user_id = 2, c_status = ''completed''\<rparr>,
                     \<lparr>c_id = 4, c_user_id = 2, c_status = ''completed''\<rparr>,
                     \<lparr>c_id = 5, c_user_id = 2, c_status = ''completed''\<rparr>],
            transactions :=
              [\<lparr>t_id = 1, t_car_id = 1, t_seller_id = 2, t_buyer_id = 3,
                t_status = ''completed'', t_completed_at = ''2024-01-10T10:00:00''\<rparr>,
               \<lparr>t_id = 2, t_car_id = 2, t_seller_id = 2, t_buyer_id = 4,
                t_status = ''completed'', t_completed_at = ''2024-02-11T10:00:00''\<rparr>,
               \<lparr>t_id = 3, t_car_id = 3, t_seller_id = 2, t_buyer_id = 3,
                t_status = ''completed'', t_completed_at = ''2024-03-12T10:00:00''\<rparr>,
               \<lparr>t_id = 4, t_car_id = 4, t_seller_id = 2, t_buyer_id = 4,
                t_status = ''completed'', t_completed_at = ''2024-04-13T10:00:00''\<rparr>,
               \<lparr>t_id = 5, t_car_id = 5, t_seller_id = 2, t_buyer_id = 3,
                t_status = ''completed'', t_completed_at = ''2024-05-14T10:00:00''\<rparr>],
            transactions_seq := 5\<rparr>"

definition ex_verified :: db where
  "ex_verified = snd (verify_seller ex_sales ''sam'' ''yes'')"

section \<open>Auxiliary facts\<close>

lemmas eval_defs =
  complete_car_def confirm_transaction_def cancel_transaction_def rate_transaction_def
  get_user_by_username_def get_car_by_id_def get_user_by_id_def get_transaction_def
  py_strip_def py_isspace_def py_isdigit_def py_int_def new_rowid_def
  set_car_status_def set_transaction_status_def
  CAR_STATUS_COMPLETED_def CAR_STATUS_ACTIVE_def

lemmas step_defs =
  admin_delete_rating_def remove_car_record_def delete_car_def admin_delete_car_def
  verify_seller_def admin_verify_user_def admin_required_def completed_sales_def
  set_verified_def upsert_rating_def score_ok_def

lemmas msg_defs =
  new_message_def get_or_create_thread_def get_thread_def message_thread_post_def
  message_thread_get_def mark_read_def thread_messages_def

lemmas ex_defs =
  ex_rated_def ex_confirmed_def ex_relisted_def ex_canceled_def ex_reserved_def ex_db_def

lemma fold_max_ge: "(a::int) \<le> fold max ids a"
proof (induction ids arbitrary: a)
  case Nil
  show ?case by simp
next
  case (Cons y ys)
  have "max y a \<le> fold max ys (max y a)" by (rule Cons.IH)
  then show ?case by simp
qed

lemma fold_max_mem: "(x::int) \<in> set ids \<Longrightarrow> x \<le> fold max ids a"
proof (induction ids arbitrary: a)
  case Nil
  then show ?case by simp
next
  case (Cons y ys)
  show ?case
  proof (cases "x = y")
    case True
    have "max y a \<le> fold max ys (max y a)" by (rule fold_max_ge)
    with True show ?thesis by simp
  next
    case False
    with Cons show ?thesis by simp
  qed
qed

lemma new_rowid_gt_seq: "seq < new_rowid seq ids"
  using fold_max_ge[of seq ids] by (simp add: new_rowid_def)

lemma new_rowid_gt_mem: "x \<in> set ids \<Longrightarrow> x < new_rowid seq ids"
  using fold_max_mem[of x ids seq] by (simp add: new_rowid_def)

lemma new_rowid_fresh: "new_rowid seq ids \<notin> set ids"
  using new_rowid_gt_mem[of "new_rowid seq ids" ids seq] by auto

lemma find_set_transaction_status:
  "find (\<lambda>t. t_id t = tid) ts = Some tx \<Longrightarrow>
   find (\<lambda>t. t_id t = tid) (set_transaction_status tid st ts) = Some (tx\<lparr>t_status := st\<rparr>)"
  by (induction ts) (auto simp: set_transaction_status_def)

lemma find_set_car_status:
  "find (\<lambda>c. c_id c = cid) cs = Some car \<Longrightarrow>
   find (\<lambda>c. c_id c = cid) (set_car_status cid st cs) = Some (car\<lparr>c_status := st\<rparr>)"
  by (induction cs) (auto simp: set_car_status_def)

lemma set_transaction_status_idem:
  "set_transaction_status tid st (set_transaction_status tid st ts) =
   set_transaction_status tid st ts"
  by (induction ts) (auto simp: set_transaction_status_def)

lemma set_car_status_idem:
  "set_car_status cid st (set_car_status cid st cs) = set_car_status cid st cs"
  by (induction cs) (auto simp: set_car_status_def)

section \<open>Reserving a listing\<close>

text \<open>
  Claim C1, as amended. \<^verbatim>\<open>complete_car\<close> never looks at the listing's status. Whenever
  the caller owns the listing and the buyer field names an existing user other than the
  caller, the request succeeds whatever the listing's current status is: the listing's
  status becomes \<^verbatim>\<open>completed\<close>, every other listing is left as it was, and exactly one
  transaction is appended, with status \<^verbatim>\<open>pending\<close> and an id that no transaction had
  before. No request is refused as \<open>InvalidState\<close>, and a refused request leaves the
  database as it was.
\<close>

theorem complete_car_effect:
  assumes user: "get_user_by_username s username = Some user"
    and car: "get_car_by_id s car_id = Some car"
    and own: "c_user_id car = u_id user"
    and digits: "py_isdigit (py_strip buyer_id_field)"
    and other: "py_int (py_strip buyer_id_field) \<noteq> u_id user"
    and buyer: "get_user_by_id s (py_int (py_strip buyer_id_field)) = Some buyer"
  shows "fst (complete_car s username car_id buyer_id_field now) = Done
    \<and> transactions (snd (complete_car s username car_id buyer_id_field now)) =
        transactions s @
          [\<lparr>t_id = new_rowid (transactions_seq s) (map t_id (transactions s)),
            t_car_id = car_id, t_seller_id = u_id user,
            t_buyer_id = py_int (py_strip buyer_id_field), t_status = ''pending'',
            t_completed_at = now\<rparr>]
    \<and> new_rowid (transactions_seq s) (map t_id (transactions s)) \<notin> t_id ` set (transactions s)
    \<and> cars (snd (complete_car s username car_id buyer_id_field now)) =
        map (\<lambda>c. if c_id c = car_id then c\<lparr>c_status := ''completed''\<rparr> else c) (cars s)
    \<and> get_car_by_id (snd (complete_car s username car_id buyer_id_field now)) car_id =
        Some (car\<lparr>c_status := ''completed''\<rparr>)
    \<and> fst (complete_car s2 username2 car_id2 buyer_id_field2 now2) \<noteq> Failed InvalidState
    \<and> (fst (complete_car s2 username2 car_id2 buyer_id_field2 now2) \<noteq> Done \<longrightarrow>
         snd (complete_car s2 username2 car_id2 buyer_id_field2 now2) = s2)"
proof -
  let ?b = "py_int (py_strip buyer_id_field)"
  let ?tid = "new_rowid (transactions_seq s) (map t_id (transactions s))"
  have run: "complete_car s username car_id buyer_id_field now =
      (Done, s\<lparr>cars := set_car_status car_id CAR_STATUS_COMPLETED (cars s),
                transactions := transactions s @
                  [\<lparr>t_id = ?tid, t_car_id = car_id, t_seller_id = u_id user,
                    t_buyer_id = ?b, t_status = ''pending'', t_completed_at = now\<rparr>],
                transactions_seq := ?tid\<rparr>)"
    using assms by (simp add: complete_car_def Let_def)
  have fresh: "?tid \<notin> t_id ` set (transactions s)"
    using new_rowid_fresh[of "transactions_seq s" "map t_id (transactions s)"] by simp
  have look: "get_car_by_id (snd (complete_car s username car_id buyer_id_field now)) car_id =
        Some (car\<lparr>c_status := ''completed''\<rparr>)"
    using car find_set_car_status[of car_id "cars s" car "''completed''"]
    by (simp add: run get_car_by_id_def CAR_STATUS_COMPLETED_def)
  have never: "fst (complete_car s2 username2 car_id2 buyer_id_field2 now2) \<noteq> Failed InvalidState"
    by (simp add: complete_car_def Let_def split: option.splits)
  have nomut: "fst (complete_car s2 username2 car_id2 buyer_id_field2 now2) \<noteq> Done \<longrightarrow>
         snd (complete_car s2 username2 car_id2 buyer_id_field2 now2) = s2"
    by (simp add: complete_car_def Let_def split: option.splits)
  show ?thesis
    using fresh look never nomut
    by (simp add: run set_car_status_def CAR_STATUS_COMPLETED_def)
qed

text \<open>The theorem at the active listing of the example: \<open>sam\<close> reserves it for \<open>bea\<close>.\<close>

theorem complete_car_effect_witness:
  "get_user_by_username ex_db ''sam'' =
      Some \<lparr>u_id = 2, u_username = ''sam'', u_verified = 0, u_is_admin = 0\<rparr>
   \<and> get_car_by_id ex_db 1 = Some \<lparr>c_id = 1, c_user_id = 2, c_status = ''active''\<rparr>
   \<and> py_isdigit (py_strip ''3'') \<and> py_int (py_strip ''3'') = 3
   \<and> get_user_by_id ex_db 3 =
      Some \<lparr>u_id = 3, u_username = ''bea'', u_verified = 0, u_is_admin = 0\<rparr>
   \<and> fst (complete_car ex_db ''sam'' 1 ''3'' ''2024-05-01T10:00:00'') = Done
   \<and> transactions (snd (complete_car ex_db ''sam'' 1 ''3'' ''2024-05-01T10:00:00'')) =
        [\<lparr>t_id = 1, t_car_id = 1, t_seller_id = 2, t_buyer_id = 3, t_status = ''pending'',
          t_completed_at = ''2024-05-01T10:00:00''\<rparr>]
   \<and> cars (snd (complete_car ex_db ''sam'' 1 ''3'' ''2024-05-01T10:00:00'')) =
        [\<lparr>c_id = 1, c_user_id = 2, c_status = ''completed''\<rparr>]"
proof -
  have u: "get_user_by_username ex_db ''sam'' =
      Some \<lparr>u_id = 2, u_username = ''sam'', u_verified = 0, u_is_admin = 0\<rparr>"
    by (simp add: ex_db_def eval_defs)
  have c: "get_car_by_id ex_db 1 = Some \<lparr>c_id = 1, c_user_id = 2, c_status = ''active''\<rparr>"
    by (simp add: ex_db_def eval_defs)
  have d: "py_isdigit (py_strip ''3'')" by (simp add: eval_defs)
  have i: "py_int (py_strip ''3'') = 3" by (simp add: eval_defs)
  have b: "get_user_by_id ex_db (py_int (py_strip ''3'')) =
      Some \<lparr>u_id = 3, u_username = ''bea'', u_verified = 0, u_is_admin = 0\<rparr>"
    by (simp add: i) (simp add: ex_db_def eval_defs)
  have "transactions ex_db = []" "transactions_seq ex_db = 0"
       "cars ex_db = [\<lparr>c_id = 1, c_user_id = 2, c_status = ''active''\<rparr>]"
    by (simp_all add: ex_db_def)
  with complete_car_effect[OF u c _ d _ b, of "''2024-05-01T10:00:00''"] u c d i b
  show ?thesis by (simp add: new_rowid_def)
qed

text \<open>
  Claim C1 as stated fails: the listing of \<open>ex_reserved\<close> is already \<^verbatim>\<open>completed\<close>,
  with a pending transaction, and reserving it again succeeds and adds a second pending
  transaction.
\<close>

theorem complete_car_not_active_counterexample:
  "map c_status (cars ex_reserved) = [''completed'']
   \<and> map t_status (transactions ex_reserved) = [''pending'']
   \<and> fst (complete_car ex_reserved ''sam'' 1 ''3'' ''2024-05-02T09:30:00'') = Done
   \<and> map t_status (transactions
         (snd (complete_car ex_reserved ''sam'' 1 ''3'' ''2024-05-02T09:30:00''))) =
       [''pending'', ''pending'']"
  by (simp add: ex_reserved_def ex_db_def eval_defs)

section \<open>Confirming a purchase\<close>

text \<open>
  Claim C4. \<^verbatim>\<open>confirm_transaction\<close>, called by the buyer of an existing transaction,
  sets that transaction's status to \<^verbatim>\<open>completed\<close> whatever its status was (nothing is
  assumed about it, so \<^verbatim>\<open>canceled\<close> is included): the request succeeds, the only
  change to the database is the status column of the rows with that id, the listings are
  untouched, and the transaction keeps all its other fields. No request is refused as
  \<open>InvalidState\<close>.
\<close>

theorem confirm_transaction_unconditional:
  assumes user: "get_user_by_username s username = Some user"
    and tx: "get_transaction s transaction_id = Some tx"
    and buyer: "t_buyer_id tx = u_id user"
  shows "confirm_transaction s username transaction_id =
           (Done, s\<lparr>transactions :=
              map (\<lambda>t. if t_id t = transaction_id then t\<lparr>t_status := ''completed''\<rparr> else t)
                (transactions s)\<rparr>)
         \<and> cars (snd (confirm_transaction s username transaction_id)) = cars s
         \<and> get_transaction (snd (confirm_transaction s username transaction_id)) transaction_id =
             Some (tx\<lparr>t_status := ''completed''\<rparr>)
         \<and> fst (confirm_transaction s2 username2 transaction_id2) \<noteq> Failed InvalidState"
proof -
  have run: "confirm_transaction s username transaction_id =
      (Done, s\<lparr>transactions :=
          set_transaction_status transaction_id ''completed'' (transactions s)\<rparr>)"
    using assms by (simp add: confirm_transaction_def)
  have look: "get_transaction (snd (confirm_transaction s username transaction_id)) transaction_id =
             Some (tx\<lparr>t_status := ''completed''\<rparr>)"
    using tx find_set_transaction_status[of transaction_id "transactions s" tx "''completed''"]
    by (simp add: run get_transaction_def)
  have never: "fst (confirm_transaction s2 username2 transaction_id2) \<noteq> Failed InvalidState"
    by (simp add: confirm_transaction_def split: option.splits)
  show ?thesis using look never by (simp add: run set_transaction_status_def)
qed

text \<open>The theorem at a canceled transaction: \<open>bea\<close> confirms what she had canceled.\<close>

theorem confirm_transaction_unconditional_witness:
  "get_user_by_username ex_canceled ''bea'' =
      Some \<lparr>u_id = 3, u_username = ''bea'', u_verified = 0, u_is_admin = 0\<rparr>
   \<and> get_transaction ex_canceled 1 =
      Some \<lparr>t_id = 1, t_car_id = 1, t_seller_id = 2, t_buyer_id = 3, t_status = ''canceled'',
            t_completed_at = ''2024-05-01T10:00:00''\<rparr>
   \<and> fst (confirm_transaction ex_canceled ''bea'' 1) = Done
   \<and> get_transaction (snd (confirm_transaction ex_canceled ''bea'' 1)) 1 =
      Some \<lparr>t_id = 1, t_car_id = 1, t_seller_id = 2, t_buyer_id = 3, t_status = ''completed'',
            t_completed_at = ''2024-05-01T10:00:00''\<rparr>
   \<and> cars (snd (confirm_transaction ex_canceled ''bea'' 1)) = cars ex_canceled"
proof -
  have u: "get_user_by_username ex_canceled ''bea'' =
      Some \<lparr>u_id = 3, u_username = ''bea'', u_verified = 0, u_is_admin = 0\<rparr>"
    by (simp add: ex_canceled_def ex_reserved_def ex_db_def eval_defs)
  have t: "get_transaction ex_canceled 1 =
      Some \<lparr>t_id = 1, t_car_id = 1, t_seller_id = 2, t_buyer_id = 3, t_status = ''canceled'',
            t_completed_at = ''2024-05-01T10:00:00''\<rparr>"
    by (simp add: ex_canceled_def ex_reserved_def ex_db_def eval_defs)
  have p: "t_buyer_id \<lparr>t_id = 1, t_car_id = 1, t_seller_id = 2, t_buyer_id = 3,
              t_status = ''canceled'', t_completed_at = ''2024-05-01T10:00:00''\<rparr> =
           u_id \<lparr>u_id = 3, u_username = ''bea'', u_verified = 0, u_is_admin = 0\<rparr>"
    by simp
  note r = confirm_transaction_unconditional[OF u t p, of ex_db "''bea''" 1]
  have a: "fst (confirm_transaction ex_canceled ''bea'' 1) = Done"
    using r[THEN conjunct1] by simp
  have b: "cars (snd (confirm_transaction ex_canceled ''bea'' 1)) = cars ex_canceled"
    by (rule r[THEN conjunct2, THEN conjunct1])
  have c: "get_transaction (snd (confirm_transaction ex_canceled ''bea'' 1)) 1 =
      Some \<lparr>t_id = 1, t_car_id = 1, t_seller_id = 2, t_buyer_id = 3, t_status = ''completed'',
            t_completed_at = ''2024-05-01T10:00:00''\<rparr>"
    using r[THEN conjunct2, THEN conjunct2, THEN conjunct1] by simp
  show ?thesis using u t a b c by blast
qed

section \<open>Canceling a transaction\<close>

text \<open>
  Claim C3, as amended. \<^verbatim>\<open>cancel_transaction\<close>, called by the buyer or the seller of an
  existing transaction in any status, sets the transaction's status to \<^verbatim>\<open>canceled\<close>
  and the status of its listing to \<^verbatim>\<open>active\<close>. A second cancellation performs the
  same two updates again, so it changes nothing when it follows the first one directly.
\<close>

theorem cancel_transaction_effect:
  assumes user: "get_user_by_username s username = Some user"
    and tx: "get_transaction s transaction_id = Some tx"
    and party: "t_buyer_id tx = u_id user \<or> t_seller_id tx = u_id user"
  shows "fst (cancel_transaction s username transaction_id) = Done
    \<and> transactions (snd (cancel_transaction s username transaction_id)) =
        map (\<lambda>t. if t_id t = transaction_id then t\<lparr>t_status := ''canceled''\<rparr> else t)
          (transactions s)
    \<and> get_transaction (snd (cancel_transaction s username transaction_id)) transaction_id =
        Some (tx\<lparr>t_status := ''canceled''\<rparr>)
    \<and> cars (snd (cancel_transaction s username transaction_id)) =
        map (\<lambda>c. if c_id c = t_car_id tx then c\<lparr>c_status := ''active''\<rparr> else c) (cars s)
    \<and> cancel_transaction (snd (cancel_transaction s username transaction_id)) username
          transaction_id =
        (Done, snd (cancel_transaction s username transaction_id))"
proof -
  let ?s' = "s\<lparr>transactions :=
                 set_transaction_status transaction_id ''canceled'' (transactions s),
               cars := set_car_status (t_car_id tx) CAR_STATUS_ACTIVE (cars s)\<rparr>"
  have run: "cancel_transaction s username transaction_id = (Done, ?s')"
    using assms by (auto simp: cancel_transaction_def)
  have "get_user_by_username ?s' username = get_user_by_username s username"
    by (simp add: get_user_by_username_def)
  with user have user': "get_user_by_username ?s' username = Some user"
    by simp
  have tx': "get_transaction ?s' transaction_id = Some (tx\<lparr>t_status := ''canceled''\<rparr>)"
    using tx find_set_transaction_status[of transaction_id "transactions s" tx "''canceled''"]
    by (simp add: get_transaction_def)
  have again: "cancel_transaction ?s' username transaction_id = (Done, ?s')"
    using user' tx' party
    by (auto simp: cancel_transaction_def set_transaction_status_idem set_car_status_idem)
  show ?thesis
    using tx' again
    by (simp add: run set_transaction_status_def set_car_status_def CAR_STATUS_ACTIVE_def)
qed

text \<open>The theorem at the pending transaction of \<open>ex_reserved\<close>, canceled by its buyer.\<close>

theorem cancel_transaction_effect_witness:
  "get_user_by_username ex_reserved ''bea'' =
      Some \<lparr>u_id = 3, u_username = ''bea'', u_verified = 0, u_is_admin = 0\<rparr>
   \<and> get_transaction ex_reserved 1 =
      Some \<lparr>t_id = 1, t_car_id = 1, t_seller_id = 2, t_buyer_id = 3, t_status = ''pending'',
            t_completed_at = ''2024-05-01T10:00:00''\<rparr>
   \<and> fst (cancel_transaction ex_reserved ''bea'' 1) = Done
   \<and> get_transaction ex_canceled 1 =
      Some \<lparr>t_id = 1, t_car_id = 1, t_seller_id = 2, t_buyer_id = 3, t_status = ''canceled'',
            t_completed_at = ''2024-05-01T10:00:00''\<rparr>
   \<and> cars ex_canceled = [\<lparr>c_id = 1, c_user_id = 2, c_status = ''active''\<rparr>]
   \<and> cancel_transaction ex_canceled ''bea'' 1 = (Done, ex_canceled)"
proof -
  have u: "get_user_by_username ex_reserved ''bea'' =
      Some \<lparr>u_id = 3, u_username = ''bea'', u_verified = 0, u_is_admin = 0\<rparr>"
    by (simp add: ex_reserved_def ex_db_def eval_defs)
  have t: "get_transaction ex_reserved 1 =
      Some \<lparr>t_id = 1, t_car_id = 1, t_seller_id = 2, t_buyer_id = 3, t_status = ''pending'',
            t_completed_at = ''2024-05-01T10:00:00''\<rparr>"
    by (simp add: ex_reserved_def ex_db_def eval_defs)
  have c: "cars ex_reserved = [\<lparr>c_id = 1, c_user_id = 2, c_status = ''completed''\<rparr>]"
    by (simp add: ex_reserved_def ex_db_def eval_defs)
  have p: "t_buyer_id \<lparr>t_id = 1, t_car_id = 1, t_seller_id = 2, t_buyer_id = 3,
              t_status = ''pending'', t_completed_at = ''2024-05-01T10:00:00''\<rparr> =
           u_id \<lparr>u_id = 3, u_username = ''bea'', u_verified = 0, u_is_admin = 0\<rparr>
         \<or> t_seller_id \<lparr>t_id = 1, t_car_id = 1, t_seller_id = 2, t_buyer_id = 3,
              t_status = ''pending'', t_completed_at = ''2024-05-01T10:00:00''\<rparr> =
           u_id \<lparr>u_id = 3, u_username = ''bea'', u_verified = 0, u_is_admin = 0\<rparr>"
    by simp
  note r = cancel_transaction_effect[OF u t p]
  have a: "fst (cancel_transaction ex_reserved ''bea'' 1) = Done"
    using r[THEN conjunct1] by simp
  have b: "get_transaction ex_canceled 1 =
      Some \<lparr>t_id = 1, t_car_id = 1, t_seller_id = 2, t_buyer_id = 3, t_status = ''canceled'',
            t_completed_at = ''2024-05-01T10:00:00''\<rparr>"
    using r[THEN conjunct2, THEN conjunct2, THEN conjunct1] by (simp add: ex_canceled_def)
  have d: "cars ex_canceled = [\<lparr>c_id = 1, c_user_id = 2, c_status = ''active''\<rparr>]"
    using r[THEN conjunct2, THEN conjunct2, THEN conjunct2, THEN conjunct1] c
    by (simp add: ex_canceled_def)
  have e: "cancel_transaction ex_canceled ''bea'' 1 = (Done, ex_canceled)"
    using r[THEN conjunct2, THEN conjunct2, THEN conjunct2, THEN conjunct2]
    by (simp add: ex_canceled_def)
  show ?thesis using u t a b d e by blast
qed

text \<open>
  Claim C3 as stated fails. In \<open>ex_relisted\<close> transaction 1 is already canceled and the
  listing has been reserved again under transaction 2, which is pending. Canceling
  transaction 1 once more succeeds and puts the listing back to \<^verbatim>\<open>active\<close>, while
  transaction 2 stays pending.
\<close>

theorem cancel_transaction_again_counterexample:
  "get_transaction ex_relisted 1 =
      Some \<lparr>t_id = 1, t_car_id = 1, t_seller_id = 2, t_buyer_id = 3, t_status = ''canceled'',
            t_completed_at = ''2024-05-01T10:00:00''\<rparr>
   \<and> get_transaction ex_relisted 2 =
      Some \<lparr>t_id = 2, t_car_id = 1, t_seller_id = 2, t_buyer_id = 4, t_status = ''pending'',
            t_completed_at = ''2024-05-03T08:15:00''\<rparr>
   \<and> cars ex_relisted = [\<lparr>c_id = 1, c_user_id = 2, c_status = ''completed''\<rparr>]
   \<and> fst (cancel_transaction ex_relisted ''bea'' 1) = Done
   \<and> cars (snd (cancel_transaction ex_relisted ''bea'' 1)) =
        [\<lparr>c_id = 1, c_user_id = 2, c_status = ''active''\<rparr>]
   \<and> get_transaction (snd (cancel_transaction ex_relisted ''bea'' 1)) 2 =
      Some \<lparr>t_id = 2, t_car_id = 1, t_seller_id = 2, t_buyer_id = 4, t_status = ''pending'',
            t_completed_at = ''2024-05-03T08:15:00''\<rparr>"
  by (simp add: ex_relisted_def ex_canceled_def ex_reserved_def ex_db_def eval_defs)

section \<open>Rating a purchase\<close>

lemma rate_transaction_no_mutation:
  "fst (rate_transaction s username tid r a c p cm now) \<noteq> Done \<Longrightarrow>
   snd (rate_transaction s username tid r a c p cm now) = s"
  by (auto simp: rate_transaction_def Let_def split: option.splits if_splits)



section \<open>Rating twice\<close>

text \<open>A lookup reads one table only.\<close>

lemma get_user_by_username_cong:
  "users s' = users s \<Longrightarrow> get_user_by_username s' u = get_user_by_username s u"
  by (simp add: get_user_by_username_def)

lemma get_user_by_id_cong:
  "users s' = users s \<Longrightarrow> get_user_by_id s' i = get_user_by_id s i"
  by (simp add: get_user_by_id_def)

lemma get_transaction_cong:
  "transactions s' = transactions s \<Longrightarrow> get_transaction s' t = get_transaction s t"
  by (simp add: get_transaction_def)

lemma get_car_by_id_cong:
  "cars s' = cars s \<Longrightarrow> get_car_by_id s' c = get_car_by_id s c"
  by (simp add: get_car_by_id_def)

lemma get_thread_cong:
  "threads s' = threads s \<Longrightarrow> get_thread s' t = get_thread s t"
  by (simp add: get_thread_def)

text \<open>The upsert keeps the transaction ids of the table, or adds the new one at the end.\<close>

lemma map_tid_upsert_rating:
  "map r_transaction_id (upsert_rating new rs) =
     (if r_transaction_id new \<in> r_transaction_id ` set rs then map r_transaction_id rs
      else map r_transaction_id rs @ [r_transaction_id new])"
proof -
  have "map r_transaction_id
          (map (\<lambda>r. if r_transaction_id r = r_transaction_id new
                      then r\<lparr>r_reliability := r_reliability new,
                             r_accuracy := r_accuracy new,
                             r_communication := r_communication new,
                             r_product := r_product new,
                             r_comment := r_comment new\<rparr>
                      else r) rs) = map r_transaction_id rs"
    by (induction rs) auto
  then show ?thesis
    by (auto simp: upsert_rating_def list_ex_iff intro: rev_image_eqI)
qed

lemma length_upsert_rating_present:
  "r_transaction_id new \<in> r_transaction_id ` set rs \<Longrightarrow>
   length (upsert_rating new rs) = length rs"
  by (auto simp: upsert_rating_def list_ex_iff)

lemma upsert_rating_member: "r_transaction_id new \<in> r_transaction_id ` set (upsert_rating new rs)"
  using map_tid_upsert_rating[of new rs]
  by (metis (no_types, lifting) in_set_conv_decomp list.set_map)

lemma upsert_rating_unique:
  "distinct (map r_transaction_id rs) \<Longrightarrow> distinct (map r_transaction_id (upsert_rating new rs))"
  by (simp add: map_tid_upsert_rating)

lemma upsert_rating_scores:
  "list_all (\<lambda>r. r_transaction_id r = r_transaction_id new \<longrightarrow>
        r_reliability r = r_reliability new \<and> r_accuracy r = r_accuracy new
        \<and> r_communication r = r_communication new \<and> r_product r = r_product new
        \<and> r_comment r = r_comment new) (upsert_rating new rs)"
  by (auto simp: upsert_rating_def list_all_iff list_ex_iff)

lemma unique_count:
  assumes "distinct (map f rs)" and "x \<in> f ` set rs"
  shows "length (filter (\<lambda>r. f r = x) rs) = 1"
proof -
  have "length (filter (\<lambda>r. f r = x) rs) = length (filter (\<lambda>y. y = x) (map f rs))"
    by (simp add: filter_map o_def)
  also have "\<dots> = card ({y. y = x} \<inter> set (map f rs))"
    using assms(1) by (rule distinct_length_filter)
  also have "{y. y = x} \<inter> set (map f rs) = {x}"
    using assms(2) by auto
  finally show ?thesis by simp
qed

lemma rate_transaction_done:
  assumes "get_user_by_username s username = Some user"
    and "get_transaction s tid = Some tx"
    and "t_buyer_id tx = u_id user"
    and "t_status tx = ''completed''"
    and "score_ok (py_strip r) \<and> score_ok (py_strip a) \<and> score_ok (py_strip c)
          \<and> score_ok (py_strip p)"
  shows "rate_transaction s username tid r a c p cm now =
     (Done,
      s\<lparr>ratings := upsert_rating
            \<lparr>r_id = new_rowid (ratings_seq s) (map r_id (ratings s)),
             r_transaction_id = tid,
             r_seller_id = t_seller_id tx, r_buyer_id = t_buyer_id tx,
             r_reliability = py_int (py_strip r), r_accuracy = py_int (py_strip a),
             r_communication = py_int (py_strip c), r_product = py_int (py_strip p),
             r_comment = py_strip cm, r_created_at = now\<rparr> (ratings s),
         ratings_seq := new_rowid (ratings_seq s) (map r_id (ratings s))\<rparr>)"
  using assms by (simp add: rate_transaction_def Let_def)

lemma ratings_unique_rate:
  "ratings_unique s \<Longrightarrow> ratings_unique (snd (rate_transaction s u t r a c p cm now))"
  by (auto simp: ratings_unique_def rate_transaction_def Let_def upsert_rating_unique
      split: option.splits)

lemma ratings_unique_remove:
  "ratings_unique s \<Longrightarrow> ratings_unique (snd (remove_car_record s c))"
  by (auto simp: ratings_unique_def remove_car_record_def Let_def distinct_map_filter
      split: option.splits)

lemma ratings_step_other:
  "ratings (snd (complete_car s u c b now)) = ratings s"
  "ratings (snd (confirm_transaction s u t)) = ratings s"
  "ratings (snd (cancel_transaction s u t)) = ratings s"
  "ratings (snd (verify_seller s u a)) = ratings s"
  "ratings (snd (admin_verify_user s u i v)) = ratings s"
  "ratings (snd (new_message s u ca now)) = ratings s"
  "ratings (snd (message_thread_post s u t bo now)) = ratings s"
  "ratings (snd (message_thread_get s u t now)) = ratings s"
  "ratings (snd (toggle_favorite s u c now)) = ratings s"
  by (auto simp: complete_car_def confirm_transaction_def cancel_transaction_def
      verify_seller_def admin_verify_user_def new_message_def get_or_create_thread_def
      message_thread_post_def message_thread_get_def toggle_favorite_def Let_def
      split: option.splits prod.splits)

lemma ratings_unique_step: "ratings_unique s \<Longrightarrow> ratings_unique (step s req)"
proof (cases req)
  case (RateTransaction u t r a c p cm now)
  then show "ratings_unique s \<Longrightarrow> ?thesis" by (simp add: ratings_unique_rate)
next
  case (AdminDeleteRating u r)
  then show "ratings_unique s \<Longrightarrow> ?thesis"
    by (auto simp: ratings_unique_def admin_delete_rating_def Let_def distinct_map_filter)
next
  case (RemoveCarRecord c)
  then show "ratings_unique s \<Longrightarrow> ?thesis" by (simp add: ratings_unique_remove)
next
  case (DeleteCar u c)
  then show "ratings_unique s \<Longrightarrow> ?thesis"
    by (auto simp: delete_car_def ratings_unique_remove split: option.splits)
next
  case (AdminDeleteCar u c)
  then show "ratings_unique s \<Longrightarrow> ?thesis"
    by (auto simp: admin_delete_car_def Let_def ratings_unique_remove)
qed (simp_all add: ratings_unique_def ratings_step_other)

text \<open>
  Claim C6. In a ratings table that respects its \<^verbatim>\<open>UNIQUE\<close> constraint, two calls of
  \<^verbatim>\<open>rate_transaction\<close> by the buyer of a completed transaction, each with four valid
  scores, both succeed; afterwards exactly one rating row belongs to the transaction,
  it holds the scores and the comment of the second call, the second call added no row,
  and the table still has one row per transaction at most. No request ever breaks that
  last property.
\<close>

theorem rate_transaction_upsert:
  assumes user: "get_user_by_username s username = Some user"
    and tx: "get_transaction s tid = Some tx"
    and buyer: "t_buyer_id tx = u_id user"
    and completed: "t_status tx = ''completed''"
    and ok1: "score_ok (py_strip r1) \<and> score_ok (py_strip a1) \<and> score_ok (py_strip c1)
          \<and> score_ok (py_strip p1)"
    and ok2: "score_ok (py_strip r2) \<and> score_ok (py_strip a2) \<and> score_ok (py_strip c2)
          \<and> score_ok (py_strip p2)"
    and uniq: "ratings_unique s"
  shows "fst (rate_transaction s username tid r1 a1 c1 p1 cm1 now1) = Done
    \<and> fst (rate_transaction (snd (rate_transaction s username tid r1 a1 c1 p1 cm1 now1)) username tid r2 a2 c2 p2 cm2 now2) = Done
    \<and> length (filter (\<lambda>r. r_transaction_id r = tid) (ratings (snd (rate_transaction
           (snd (rate_transaction s username tid r1 a1 c1 p1 cm1 now1))
           username tid r2 a2 c2 p2 cm2 now2)))) = 1
    \<and> list_all (\<lambda>r. r_transaction_id r = tid \<longrightarrow>
          r_reliability r = py_int (py_strip r2) \<and> r_accuracy r = py_int (py_strip a2)
          \<and> r_communication r = py_int (py_strip c2) \<and> r_product r = py_int (py_strip p2)
          \<and> r_comment r = py_strip cm2) (ratings (snd (rate_transaction
           (snd (rate_transaction s username tid r1 a1 c1 p1 cm1 now1))
           username tid r2 a2 c2 p2 cm2 now2)))
    \<and> length (ratings (snd (rate_transaction
           (snd (rate_transaction s username tid r1 a1 c1 p1 cm1 now1))
           username tid r2 a2 c2 p2 cm2 now2))) = length (ratings (snd (rate_transaction s username tid r1 a1 c1 p1 cm1 now1)))
    \<and> ratings_unique (snd (rate_transaction
           (snd (rate_transaction s username tid r1 a1 c1 p1 cm1 now1))
           username tid r2 a2 c2 p2 cm2 now2))
    \<and> (ratings_unique s3 \<longrightarrow> ratings_unique (step s3 req))"
proof -
  define s1 where "s1 = snd (rate_transaction s username tid r1 a1 c1 p1 cm1 now1)"
  define s2 where "s2 = snd (rate_transaction s1 username tid r2 a2 c2 p2 cm2 now2)"
  let ?new1 = "\<lparr>r_id = new_rowid (ratings_seq s) (map r_id (ratings s)),
             r_transaction_id = tid,
             r_seller_id = t_seller_id tx, r_buyer_id = t_buyer_id tx,
             r_reliability = py_int (py_strip r1), r_accuracy = py_int (py_strip a1),
             r_communication = py_int (py_strip c1), r_product = py_int (py_strip p1),
             r_comment = py_strip cm1, r_created_at = now1\<rparr>"
  let ?new2 = "\<lparr>r_id = new_rowid (ratings_seq s1) (map r_id (ratings s1)),
             r_transaction_id = tid,
             r_seller_id = t_seller_id tx, r_buyer_id = t_buyer_id tx,
             r_reliability = py_int (py_strip r2), r_accuracy = py_int (py_strip a2),
             r_communication = py_int (py_strip c2), r_product = py_int (py_strip p2),
             r_comment = py_strip cm2, r_created_at = now2\<rparr>"
  have run1: "rate_transaction s username tid r1 a1 c1 p1 cm1 now1 =
      (Done, s\<lparr>ratings := upsert_rating ?new1 (ratings s),
                ratings_seq := new_rowid (ratings_seq s) (map r_id (ratings s))\<rparr>)"
    by (rule rate_transaction_done[OF user tx buyer completed ok1])
  have rs1: "ratings s1 = upsert_rating ?new1 (ratings s)"
    by (simp add: s1_def run1)
  have user1: "get_user_by_username s1 username = Some user"
    using user get_user_by_username_cong[of s1 s username] by (simp add: s1_def run1)
  have tx1: "get_transaction s1 tid = Some tx"
    using tx get_transaction_cong[of s1 s tid] by (simp add: s1_def run1)
  have run2: "rate_transaction s1 username tid r2 a2 c2 p2 cm2 now2 =
      (Done, s1\<lparr>ratings := upsert_rating ?new2 (ratings s1),
                ratings_seq := new_rowid (ratings_seq s1) (map r_id (ratings s1))\<rparr>)"
    by (rule rate_transaction_done[OF user1 tx1 buyer completed ok2])
  have rs2: "ratings s2 = upsert_rating ?new2 (ratings s1)"
    by (simp add: s2_def run2)
  have mem1: "tid \<in> r_transaction_id ` set (ratings s1)"
    using upsert_rating_member[of ?new1 "ratings s"] by (simp add: rs1)
  have mem2: "tid \<in> r_transaction_id ` set (ratings s2)"
    using upsert_rating_member[of ?new2 "ratings s1"] by (simp add: rs2)
  have u1: "ratings_unique s1"
    unfolding s1_def using uniq by (rule ratings_unique_rate)
  have u2: "ratings_unique s2"
    unfolding s2_def using u1 by (rule ratings_unique_rate)
  have one: "length (filter (\<lambda>r. r_transaction_id r = tid) (ratings s2)) = 1"
    using u2 mem2 unique_count[of r_transaction_id "ratings s2" tid]
    by (simp add: ratings_unique_def)
  have latest: "list_all (\<lambda>r. r_transaction_id r = tid \<longrightarrow>
          r_reliability r = py_int (py_strip r2) \<and> r_accuracy r = py_int (py_strip a2)
          \<and> r_communication r = py_int (py_strip c2) \<and> r_product r = py_int (py_strip p2)
          \<and> r_comment r = py_strip cm2) (ratings s2)"
    using upsert_rating_scores[of ?new2 "ratings s1"] by (simp add: rs2)
  have same: "length (ratings s2) = length (ratings s1)"
    using length_upsert_rating_present[of ?new2 "ratings s1"] mem1 by (simp add: rs2)
  have step: "ratings_unique s3 \<longrightarrow> ratings_unique (step s3 req)"
    using ratings_unique_step by blast
  have d1: "fst (rate_transaction s username tid r1 a1 c1 p1 cm1 now1) = Done"
    by (simp add: run1)
  have d2: "fst (rate_transaction s1 username tid r2 a2 c2 p2 cm2 now2) = Done"
    by (simp add: run2)
  show ?thesis
    using d1 d2 one latest same u2 step unfolding s2_def s1_def by blast
qed

text \<open>
  The theorem at the example: \<open>bea\<close> rates her completed purchase 5, 4, 5, 3 and later
  changes her mind to 2, 1, 2, 1.
\<close>

theorem rate_transaction_upsert_witness:
  "get_user_by_username ex_confirmed ''bea'' =
      Some \<lparr>u_id = 3, u_username = ''bea'', u_verified = 0, u_is_admin = 0\<rparr>
   \<and> get_transaction ex_confirmed 1 =
      Some \<lparr>t_id = 1, t_car_id = 1, t_seller_id = 2, t_buyer_id = 3, t_status = ''completed'',
            t_completed_at = ''2024-05-01T10:00:00''\<rparr>
   \<and> ratings_unique ex_confirmed
   \<and> length (filter (\<lambda>r. r_transaction_id r = 1)
        (ratings (snd (rate_transaction ex_rated ''bea'' 1 ''2'' ''1'' ''2'' ''1''
           ''on reflection, poor'' ''2024-05-06T18:45:00'')))) = 1
   \<and> list_all (\<lambda>r. r_transaction_id r = 1 \<longrightarrow>
          r_reliability r = 2 \<and> r_accuracy r = 1 \<and> r_communication r = 2 \<and> r_product r = 1
          \<and> r_comment r = ''on reflection, poor'')
        (ratings (snd (rate_transaction ex_rated ''bea'' 1 ''2'' ''1'' ''2'' ''1''
           ''on reflection, poor'' ''2024-05-06T18:45:00'')))"
proof -
  have u: "get_user_by_username ex_confirmed ''bea'' =
      Some \<lparr>u_id = 3, u_username = ''bea'', u_verified = 0, u_is_admin = 0\<rparr>"
    by (simp add: ex_defs eval_defs)
  have t: "get_transaction ex_confirmed 1 =
      Some \<lparr>t_id = 1, t_car_id = 1, t_seller_id = 2, t_buyer_id = 3, t_status = ''completed'',
            t_completed_at = ''2024-05-01T10:00:00''\<rparr>"
    by (simp add: ex_defs eval_defs)
  have b: "t_buyer_id \<lparr>t_id = 1, t_car_id = 1, t_seller_id = 2, t_buyer_id = 3,
              t_status = ''completed'', t_completed_at = ''2024-05-01T10:00:00''\<rparr> =
           u_id \<lparr>u_id = 3, u_username = ''bea'', u_verified = 0, u_is_admin = 0\<rparr>"
    by simp
  have c: "t_status \<lparr>t_id = 1, t_car_id = 1, t_seller_id = 2, t_buyer_id = 3,
              t_status = ''completed'', t_completed_at = ''2024-05-01T10:00:00''\<rparr> =
           ''completed''"
    by simp
  have ok1: "score_ok (py_strip ''5'') \<and> score_ok (py_strip ''4'') \<and> score_ok (py_strip ''5'')
          \<and> score_ok (py_strip ''3'')"
    by (simp add: score_ok_def eval_defs)
  have ok2: "score_ok (py_strip ''2'') \<and> score_ok (py_strip ''1'') \<and> score_ok (py_strip ''2'')
          \<and> score_ok (py_strip ''1'')"
    by (simp add: score_ok_def eval_defs)
  have q: "ratings_unique ex_confirmed"
    by (simp add: ratings_unique_def ex_defs eval_defs)
  have v: "py_int (py_strip ''2'') = 2" "py_int (py_strip ''1'') = 1"
      "py_strip ''on reflection, poor'' = ''on reflection, poor''"
    by (simp_all add: eval_defs)
  note r = rate_transaction_upsert[OF u t b c ok1 ok2 q,
      of "''great''" "''2024-05-04T12:00:00''" "''on reflection, poor''"
         "''2024-05-06T18:45:00''" ex_db "CancelTransaction ''bea'' 1", folded ex_rated_def]
  have one: "length (filter (\<lambda>r. r_transaction_id r = 1)
        (ratings (snd (rate_transaction ex_rated ''bea'' 1 ''2'' ''1'' ''2'' ''1''
           ''on reflection, poor'' ''2024-05-06T18:45:00'')))) = 1"
    by (rule r[THEN conjunct2, THEN conjunct2, THEN conjunct1])
  have latest: "list_all (\<lambda>r. r_transaction_id r = 1 \<longrightarrow>
          r_reliability r = 2 \<and> r_accuracy r = 1 \<and> r_communication r = 2 \<and> r_product r = 1
          \<and> r_comment r = ''on reflection, poor'')
        (ratings (snd (rate_transaction ex_rated ''bea'' 1 ''2'' ''1'' ''2'' ''1''
           ''on reflection, poor'' ''2024-05-06T18:45:00'')))"
    using r[THEN conjunct2, THEN conjunct2, THEN conjunct2, THEN conjunct1]
    unfolding v by simp
  show ?thesis using u t q one latest by blast
qed

section \<open>Ratings and the status of their transactions\<close>

lemma rating_inv_iff:
  "rating_inv s \<longleftrightarrow>
     (\<forall>r\<in>set (ratings s). \<forall>t\<in>set (transactions s).
        t_id t = r_transaction_id r \<longrightarrow> t_status t = ''completed'')"
  by (simp add: rating_inv_def list_all_iff)

lemma transaction_ids_wf_iff:
  "transaction_ids_wf s \<longleftrightarrow>
     distinct (map t_id (transactions s))
     \<and> (\<forall>t\<in>set (transactions s). t_id t \<le> transactions_seq s)
     \<and> (\<forall>r\<in>set (ratings s). r_transaction_id r \<le> transactions_seq s)"
  by (simp add: transaction_ids_wf_def list_all_iff)

lemma find_Some_mem: "find P xs = Some x \<Longrightarrow> x \<in> set xs \<and> P x"
  by (induction xs) (auto split: if_splits)

lemma distinct_id_eq:
  "distinct (map f xs) \<Longrightarrow> x \<in> set xs \<Longrightarrow> y \<in> set xs \<Longrightarrow> f x = f y \<Longrightarrow> x = y"
  by (meson distinct_map inj_onD)

lemma inv_complete_car:
  assumes "rating_inv s" and "transaction_ids_wf s"
  shows "rating_inv (snd (complete_car s u c b now))
       \<and> transaction_ids_wf (snd (complete_car s u c b now))"
proof (cases "fst (complete_car s u c b now) = Done")
  case False
  then have "snd (complete_car s u c b now) = s"
    by (auto simp: complete_car_def Let_def split: option.splits if_splits)
  with assms show ?thesis by simp
next
  case True
  let ?tid = "new_rowid (transactions_seq s) (map t_id (transactions s))"
  from True obtain tx where
    ts: "transactions (snd (complete_car s u c b now)) = transactions s @ [tx]"
    and tid: "t_id tx = ?tid"
    and seq: "transactions_seq (snd (complete_car s u c b now)) = ?tid"
    and rs: "ratings (snd (complete_car s u c b now)) = ratings s"
    by (auto simp: complete_car_def Let_def split: option.splits if_splits)
  have gt: "transactions_seq s < ?tid" by (rule new_rowid_gt_seq)
  have fresh: "?tid \<notin> set (map t_id (transactions s))" by (rule new_rowid_fresh)
  have "rating_inv (snd (complete_car s u c b now))"
    using assms gt unfolding rating_inv_iff transaction_ids_wf_iff ts rs
    by (auto simp: tid)
  moreover have "transaction_ids_wf (snd (complete_car s u c b now))"
    using assms gt fresh unfolding transaction_ids_wf_iff ts rs seq
    by (auto simp: tid)
  ultimately show ?thesis by simp
qed

lemma set_transaction_status_ids [simp]:
  "map t_id (set_transaction_status tid st ts) = map t_id ts"
  by (induction ts) (auto simp: set_transaction_status_def)

lemma inv_confirm:
  assumes "rating_inv s" and "transaction_ids_wf s"
  shows "rating_inv (snd (confirm_transaction s u t))
       \<and> transaction_ids_wf (snd (confirm_transaction s u t))"
proof -
  have "rating_inv (snd (confirm_transaction s u t))"
    using assms(1) unfolding rating_inv_iff
    by (auto simp: confirm_transaction_def set_transaction_status_def split: option.splits)
  moreover have "transaction_ids_wf (snd (confirm_transaction s u t))"
    using assms(2) unfolding transaction_ids_wf_iff
    by (auto simp: confirm_transaction_def split: option.splits)
       (auto simp: set_transaction_status_def)
  ultimately show ?thesis by simp
qed

lemma inv_cancel:
  assumes "rating_inv s" and "transaction_ids_wf s"
    and "\<not> list_ex (\<lambda>r. r_transaction_id r = t) (ratings s)"
  shows "rating_inv (snd (cancel_transaction s u t))
       \<and> transaction_ids_wf (snd (cancel_transaction s u t))"
proof -
  have "rating_inv (snd (cancel_transaction s u t))"
    using assms(1,3) unfolding rating_inv_iff list_ex_iff
    by (auto simp: cancel_transaction_def set_transaction_status_def split: option.splits)
  moreover have "transaction_ids_wf (snd (cancel_transaction s u t))"
    using assms(2) unfolding transaction_ids_wf_iff
    by (auto simp: cancel_transaction_def split: option.splits)
       (auto simp: set_transaction_status_def)
  ultimately show ?thesis by simp
qed

lemma set_upsert_rating:
  "r' \<in> set (upsert_rating new rs) \<Longrightarrow>
     r_transaction_id r' = r_transaction_id new
     \<or> r_transaction_id r' \<in> r_transaction_id ` set rs"
  using map_tid_upsert_rating[of new rs]
  by (metis (no_types, lifting) Un_iff empty_iff empty_set imageI insert_iff list.set_map
      list.simps(15) set_append)

lemma inv_rate:
  assumes inv: "rating_inv s" and wf: "transaction_ids_wf s"
  shows "rating_inv (snd (rate_transaction s u t r a c p cm now))
       \<and> transaction_ids_wf (snd (rate_transaction s u t r a c p cm now))"
proof (cases "fst (rate_transaction s u t r a c p cm now) = Done")
  case False
  then have "snd (rate_transaction s u t r a c p cm now) = s"
    by (rule rate_transaction_no_mutation)
  with assms show ?thesis by simp
next
  case True
  then obtain tx new where tx: "get_transaction s t = Some tx"
    and st: "t_status tx = ''completed''"
    and rs: "ratings (snd (rate_transaction s u t r a c p cm now)) =
               upsert_rating new (ratings s)"
    and new: "r_transaction_id new = t"
    and ts: "transactions (snd (rate_transaction s u t r a c p cm now)) = transactions s"
    and seq: "transactions_seq (snd (rate_transaction s u t r a c p cm now)) =
               transactions_seq s"
    by (auto simp: rate_transaction_def Let_def split: option.splits if_splits)
  from tx have mem: "tx \<in> set (transactions s)" and id: "t_id tx = t"
    using find_Some_mem[of "\<lambda>x. t_id x = t" "transactions s" tx]
    by (simp_all add: get_transaction_def)
  have dist: "distinct (map t_id (transactions s))"
    using wf by (simp add: transaction_ids_wf_iff)
  have only: "\<And>x. x \<in> set (transactions s) \<Longrightarrow> t_id x = t \<Longrightarrow> t_status x = ''completed''"
    using distinct_id_eq[OF dist _ mem] id st by auto
  have a: "rating_inv (snd (rate_transaction s u t r a c p cm now))"
    unfolding rating_inv_iff rs ts
  proof (intro ballI impI)
    fix r' x
    assume r': "r' \<in> set (upsert_rating new (ratings s))"
      and x: "x \<in> set (transactions s)" and eq: "t_id x = r_transaction_id r'"
    from set_upsert_rating[OF r'] show "t_status x = ''completed''"
    proof
      assume "r_transaction_id r' = r_transaction_id new"
      with eq new x only show ?thesis by simp
    next
      assume "r_transaction_id r' \<in> r_transaction_id ` set (ratings s)"
      then obtain r0 where "r0 \<in> set (ratings s)" "r_transaction_id r0 = r_transaction_id r'"
        by auto
      with inv x eq show ?thesis unfolding rating_inv_iff by auto
    qed
  qed
  have le: "t \<le> transactions_seq s"
    using wf mem id by (auto simp: transaction_ids_wf_iff)
  have b: "transaction_ids_wf (snd (rate_transaction s u t r a c p cm now))"
    unfolding transaction_ids_wf_iff rs ts seq
  proof (intro conjI ballI)
    show "distinct (map t_id (transactions s))" by (rule dist)
  next
    fix x assume "x \<in> set (transactions s)"
    with wf show "t_id x \<le> transactions_seq s" by (simp add: transaction_ids_wf_iff)
  next
    fix r' assume r': "r' \<in> set (upsert_rating new (ratings s))"
    from set_upsert_rating[OF r'] show "r_transaction_id r' \<le> transactions_seq s"
      using le new wf by (auto simp: transaction_ids_wf_iff)
  qed
  from a b show ?thesis by simp
qed

lemma inv_admin_delete_rating:
  assumes "rating_inv s" and "transaction_ids_wf s"
  shows "rating_inv (snd (admin_delete_rating s u r))
       \<and> transaction_ids_wf (snd (admin_delete_rating s u r))"
  using assms unfolding rating_inv_iff transaction_ids_wf_iff
  by (auto simp: admin_delete_rating_def Let_def)

lemma inv_remove_car_record:
  assumes "rating_inv s" and "transaction_ids_wf s"
  shows "rating_inv (snd (remove_car_record s c))
       \<and> transaction_ids_wf (snd (remove_car_record s c))"
  using assms unfolding rating_inv_iff transaction_ids_wf_iff
  by (auto simp: remove_car_record_def Let_def distinct_map_filter split: option.splits)

lemma inv_delete_car:
  assumes "rating_inv s" and "transaction_ids_wf s"
  shows "rating_inv (snd (delete_car s u c)) \<and> transaction_ids_wf (snd (delete_car s u c))"
  using assms inv_remove_car_record[OF assms, of c]
  by (auto simp: delete_car_def split: option.splits)

lemma inv_admin_delete_car:
  assumes "rating_inv s" and "transaction_ids_wf s"
  shows "rating_inv (snd (admin_delete_car s u c))
       \<and> transaction_ids_wf (snd (admin_delete_car s u c))"
  using assms inv_remove_car_record[OF assms, of "py_int (py_strip c)"]
  by (auto simp: admin_delete_car_def Let_def)

lemma transactions_step_other:
  "transactions (snd (verify_seller s u a)) = transactions s"
  "transactions (snd (admin_verify_user s u i v)) = transactions s"
  "transactions (snd (new_message s u ca now)) = transactions s"
  "transactions (snd (message_thread_post s u t bo now)) = transactions s"
  "transactions (snd (message_thread_get s u t now)) = transactions s"
  "transactions (snd (toggle_favorite s u c now)) = transactions s"
  "transactions_seq (snd (verify_seller s u a)) = transactions_seq s"
  "transactions_seq (snd (admin_verify_user s u i v)) = transactions_seq s"
  "transactions_seq (snd (new_message s u ca now)) = transactions_seq s"
  "transactions_seq (snd (message_thread_post s u t bo now)) = transactions_seq s"
  "transactions_seq (snd (message_thread_get s u t now)) = transactions_seq s"
  "transactions_seq (snd (toggle_favorite s u c now)) = transactions_seq s"
  by (auto simp: verify_seller_def admin_verify_user_def new_message_def
      get_or_create_thread_def message_thread_post_def message_thread_get_def
      toggle_favorite_def Let_def split: option.splits prod.splits)

lemma inv_step:
  assumes "rating_inv s" and "transaction_ids_wf s" and "\<not> cancels_rated s req"
  shows "rating_inv (step s req) \<and> transaction_ids_wf (step s req)"
proof (cases req)
  case (CompleteCar u c b now)
  with inv_complete_car[OF assms(1,2)] show ?thesis by simp
next
  case (ConfirmTransaction u t)
  with inv_confirm[OF assms(1,2)] show ?thesis by simp
next
  case (CancelTransaction u t)
  with inv_cancel[OF assms(1,2), of t u] assms(3) show ?thesis by simp
next
  case (RateTransaction u t r a c p cm now)
  with inv_rate[OF assms(1,2)] show ?thesis by simp
next
  case (AdminDeleteRating u r)
  with inv_admin_delete_rating[OF assms(1,2)] show ?thesis by simp
next
  case (RemoveCarRecord c)
  with inv_remove_car_record[OF assms(1,2)] show ?thesis by simp
next
  case (DeleteCar u c)
  with inv_delete_car[OF assms(1,2)] show ?thesis by simp
next
  case (AdminDeleteCar u c)
  with inv_admin_delete_car[OF assms(1,2)] show ?thesis by simp
qed (use assms in \<open>simp_all add: rating_inv_def transaction_ids_wf_def
       transactions_step_other ratings_step_other\<close>)

lemma inv_run:
  "rating_inv s \<Longrightarrow> transaction_ids_wf s \<Longrightarrow> no_rated_cancel s rs \<Longrightarrow>
   rating_inv (run s rs) \<and> transaction_ids_wf (run s rs)"
proof (induction rs arbitrary: s)
  case Nil
  then show ?case by simp
next
  case (Cons r rs)
  from Cons.prems have "rating_inv (step s r) \<and> transaction_ids_wf (step s r)"
    using inv_step[of s r] by simp
  with Cons.IH[of "step s r"] Cons.prems show ?case by simp
qed

text \<open>
  Claim C2, as amended. Start from any database in which every rating belongs to
  completed transactions only (and the transaction ids are well formed, as the schema
  has them). After any sequence of requests in which \<^verbatim>\<open>cancel_transaction\<close> is never
  applied to a transaction that has a rating, every rating still belongs to completed
  transactions only. The database that \<^verbatim>\<open>init_db\<close> creates is such a start.
  \<^verbatim>\<open>cancel_transaction\<close> itself never touches the ratings table, so a rating of the
  canceled transaction stays.
\<close>

theorem rating_inv_preserved:
  assumes "rating_inv s" and "transaction_ids_wf s" and "no_rated_cancel s rs"
  shows "rating_inv (run s rs) \<and> transaction_ids_wf (run s rs)
    \<and> rating_inv init_db \<and> transaction_ids_wf init_db
    \<and> ratings (snd (cancel_transaction s2 username2 tid2)) = ratings s2"
proof -
  have "rating_inv init_db \<and> transaction_ids_wf init_db"
    by (simp add: rating_inv_def transaction_ids_wf_def init_db_def)
  with inv_run[OF assms] show ?thesis
    by (simp add: ratings_step_other)
qed

text \<open>
  The theorem at a run from the example: a reservation, its cancellation before any
  rating, a second reservation, its confirmation and its rating.
\<close>

theorem rating_inv_preserved_witness:
  "rating_inv ex_db \<and> transaction_ids_wf ex_db
   \<and> no_rated_cancel ex_db
        [CompleteCar ''sam'' 1 ''3'' ''2024-05-01T10:00:00'',
         CancelTransaction ''bea'' 1,
         CompleteCar ''sam'' 1 ''4'' ''2024-05-03T08:15:00'',
         ConfirmTransaction ''cy'' 2,
         RateTransaction ''cy'' 2 ''5'' ''5'' ''4'' ''5'' ''smooth'' ''2024-05-07T09:00:00'']
   \<and> map r_transaction_id (ratings (run ex_db
        [CompleteCar ''sam'' 1 ''3'' ''2024-05-01T10:00:00'',
         CancelTransaction ''bea'' 1,
         CompleteCar ''sam'' 1 ''4'' ''2024-05-03T08:15:00'',
         ConfirmTransaction ''cy'' 2,
         RateTransaction ''cy'' 2 ''5'' ''5'' ''4'' ''5'' ''smooth'' ''2024-05-07T09:00:00''])) = [2]
   \<and> rating_inv (run ex_db
        [CompleteCar ''sam'' 1 ''3'' ''2024-05-01T10:00:00'',
         CancelTransaction ''bea'' 1,
         CompleteCar ''sam'' 1 ''4'' ''2024-05-03T08:15:00'',
         ConfirmTransaction ''cy'' 2,
         RateTransaction ''cy'' 2 ''5'' ''5'' ''4'' ''5'' ''smooth'' ''2024-05-07T09:00:00''])"
proof -
  have a: "rating_inv ex_db" by (simp add: rating_inv_def ex_db_def)
  have b: "transaction_ids_wf ex_db" by (simp add: transaction_ids_wf_def ex_db_def)
  have c: "no_rated_cancel ex_db
        [CompleteCar ''sam'' 1 ''3'' ''2024-05-01T10:00:00'',
         CancelTransaction ''bea'' 1,
         CompleteCar ''sam'' 1 ''4'' ''2024-05-03T08:15:00'',
         ConfirmTransaction ''cy'' 2,
         RateTransaction ''cy'' 2 ''5'' ''5'' ''4'' ''5'' ''smooth'' ''2024-05-07T09:00:00'']"
    by (simp add: ex_db_def eval_defs)
  have d: "map r_transaction_id (ratings (run ex_db
        [CompleteCar ''sam'' 1 ''3'' ''2024-05-01T10:00:00'',
         CancelTransaction ''bea'' 1,
         CompleteCar ''sam'' 1 ''4'' ''2024-05-03T08:15:00'',
         ConfirmTransaction ''cy'' 2,
         RateTransaction ''cy'' 2 ''5'' ''5'' ''4'' ''5'' ''smooth'' ''2024-05-07T09:00:00''])) = [2]"
    by (simp add: ex_db_def eval_defs step_defs)
  from rating_inv_preserved[OF a b c, THEN conjunct1] a b c d show ?thesis by blast
qed

text \<open>
  Claim C2 as stated fails. \<open>ex_rated\<close> is reached from the example by a reservation,
  its confirmation and its rating, and every rating in it belongs to a completed
  transaction. The seller then cancels the rated transaction: the request succeeds, the
  transaction is canceled, and its rating row is still there.
\<close>

theorem cancel_rated_counterexample:
  "ex_rated = run ex_db
        [CompleteCar ''sam'' 1 ''3'' ''2024-05-01T10:00:00'',
         ConfirmTransaction ''bea'' 1,
         RateTransaction ''bea'' 1 ''5'' ''4'' ''5'' ''3'' ''great'' ''2024-05-04T12:00:00'']
   \<and> rating_inv ex_rated
   \<and> fst (cancel_transaction ex_rated ''sam'' 1) = Done
   \<and> map t_status (transactions (snd (cancel_transaction ex_rated ''sam'' 1))) = [''canceled'']
   \<and> map r_transaction_id (ratings (snd (cancel_transaction ex_rated ''sam'' 1))) = [1]
   \<and> \<not> rating_inv (snd (cancel_transaction ex_rated ''sam'' 1))"
  by (simp add: ex_defs eval_defs step_defs rating_inv_def)

section \<open>Toggling a favorite\<close>

lemma favorite_pairs_filter:
  "favorite_pairs (s\<lparr>favorites :=
       filter (\<lambda>f. f_user_id f = u \<longrightarrow> f_car_id f \<noteq> c) (favorites s)\<rparr>) =
   favorite_pairs s - {(u, c)}"
  by (auto simp: favorite_pairs_def image_iff)

lemma favorite_pairs_append:
  "favorite_pairs (s\<lparr>favorites := favorites s @
       [\<lparr>f_user_id = u, f_car_id = c, f_created_at = now\<rparr>]\<rparr>) =
   insert (u, c) (favorite_pairs s)"
  unfolding favorite_pairs_def by simp

lemma favorite_pairs_ex:
  "list_ex (\<lambda>f. f_user_id f = u \<and> f_car_id f = c) (favorites s) \<longleftrightarrow>
   (u, c) \<in> favorite_pairs s"
  by (auto simp: favorite_pairs_def list_ex_iff image_iff)

lemma favorite_pairs_toggle:
  assumes user: "get_user_by_username s username = Some user"
    and car: "get_car_by_id s car_id = Some car"
    and active: "c_status car = ''active''"
  shows "fst (toggle_favorite s username car_id now) = Done"
    and "favorite_pairs (snd (toggle_favorite s username car_id now)) =
       (if (u_id user, car_id) \<in> favorite_pairs s
        then favorite_pairs s - {(u_id user, car_id)}
        else insert (u_id user, car_id) (favorite_pairs s))"
    and "get_user_by_username (snd (toggle_favorite s username car_id now)) username = Some user"
    and "get_car_by_id (snd (toggle_favorite s username car_id now)) car_id = Some car"
proof -
  show "fst (toggle_favorite s username car_id now) = Done"
    using assms by (simp add: toggle_favorite_def CAR_STATUS_ACTIVE_def)
  show "favorite_pairs (snd (toggle_favorite s username car_id now)) =
       (if (u_id user, car_id) \<in> favorite_pairs s
        then favorite_pairs s - {(u_id user, car_id)}
        else insert (u_id user, car_id) (favorite_pairs s))"
    using assms
    by (simp add: toggle_favorite_def CAR_STATUS_ACTIVE_def
        favorite_pairs_ex favorite_pairs_filter favorite_pairs_append)
  have frame: "users (snd (toggle_favorite s username car_id now)) = users s"
       "cars (snd (toggle_favorite s username car_id now)) = cars s"
    by (auto simp: toggle_favorite_def split: option.splits)
  show "get_user_by_username (snd (toggle_favorite s username car_id now)) username = Some user"
    using user get_user_by_username_cong[OF frame(1), of username] by simp
  show "get_car_by_id (snd (toggle_favorite s username car_id now)) car_id = Some car"
    using car get_car_by_id_cong[OF frame(2), of car_id] by simp
qed

text \<open>
  Claim C10. For a logged-in caller, \<^verbatim>\<open>toggle_favorite\<close> is refused as \<open>NotFound\<close>,
  leaving the database as it was, when the listing does not exist or is not
  \<^verbatim>\<open>active\<close>. On an active listing it succeeds and flips the membership of the pair
  (user, listing) in the set of favorites: the pair is removed if it was there and added
  if it was not. A second call with the same arguments succeeds as well and brings the
  set of favorites back to what it was before the first.
\<close>

theorem toggle_favorite_self_inverse:
  assumes user: "get_user_by_username s username = Some user"
  shows
   "(get_car_by_id s car_id = None
       \<or> (\<exists>car. get_car_by_id s car_id = Some car \<and> c_status car \<noteq> ''active'') \<longrightarrow>
      toggle_favorite s username car_id now = (Failed NotFound, s))
    \<and> (\<forall>car. get_car_by_id s car_id = Some car \<and> c_status car = ''active'' \<longrightarrow>
         fst (toggle_favorite s username car_id now) = Done
         \<and> favorite_pairs (snd (toggle_favorite s username car_id now)) =
             (if (u_id user, car_id) \<in> favorite_pairs s
              then favorite_pairs s - {(u_id user, car_id)}
              else insert (u_id user, car_id) (favorite_pairs s))
         \<and> fst (toggle_favorite (snd (toggle_favorite s username car_id now))
                  username car_id now2) = Done
         \<and> favorite_pairs (snd (toggle_favorite (snd (toggle_favorite s username car_id now))
                  username car_id now2)) = favorite_pairs s)"
proof -
  have refuse: "get_car_by_id s car_id = None
       \<or> (\<exists>car. get_car_by_id s car_id = Some car \<and> c_status car \<noteq> ''active'') \<longrightarrow>
      toggle_favorite s username car_id now = (Failed NotFound, s)"
    using user by (auto simp: toggle_favorite_def CAR_STATUS_ACTIVE_def)
  have flip: "fst (toggle_favorite s username car_id now) = Done
         \<and> favorite_pairs (snd (toggle_favorite s username car_id now)) =
             (if (u_id user, car_id) \<in> favorite_pairs s
              then favorite_pairs s - {(u_id user, car_id)}
              else insert (u_id user, car_id) (favorite_pairs s))
         \<and> fst (toggle_favorite (snd (toggle_favorite s username car_id now))
                  username car_id now2) = Done
         \<and> favorite_pairs (snd (toggle_favorite (snd (toggle_favorite s username car_id now))
                  username car_id now2)) = favorite_pairs s"
    if car: "get_car_by_id s car_id = Some car" and active: "c_status car = ''active''" for car
  proof -
    let ?s1 = "snd (toggle_favorite s username car_id now)"
    note one = favorite_pairs_toggle[OF user car active, of now]
    note two = favorite_pairs_toggle[OF one(3) one(4) active, of now2]
    have "favorite_pairs (snd (toggle_favorite ?s1 username car_id now2)) = favorite_pairs s"
      unfolding two(2) one(2) by auto
    with one(1,2) two(1) show ?thesis by simp
  qed
  from refuse flip show ?thesis by blast
qed

text \<open>
  The theorem at the example: \<open>bea\<close> marks the active listing and unmarks it again; once
  the listing is reserved, the request is refused.
\<close>

theorem toggle_favorite_self_inverse_witness:
  "get_user_by_username ex_db ''bea'' =
      Some \<lparr>u_id = 3, u_username = ''bea'', u_verified = 0, u_is_admin = 0\<rparr>
   \<and> get_car_by_id ex_db 1 = Some \<lparr>c_id = 1, c_user_id = 2, c_status = ''active''\<rparr>
   \<and> favorite_pairs ex_db = {}
   \<and> favorite_pairs (snd (toggle_favorite ex_db ''bea'' 1 ''2024-05-01T09:00:00'')) = {(3, 1)}
   \<and> favorite_pairs (snd (toggle_favorite
        (snd (toggle_favorite ex_db ''bea'' 1 ''2024-05-01T09:00:00''))
        ''bea'' 1 ''2024-05-01T09:00:05'')) = {}
   \<and> get_car_by_id ex_reserved 1 = Some \<lparr>c_id = 1, c_user_id = 2, c_status = ''completed''\<rparr>
   \<and> toggle_favorite ex_reserved ''bea'' 1 ''2024-05-01T11:00:00'' =
        (Failed NotFound, ex_reserved)"
proof -
  have u: "get_user_by_username ex_db ''bea'' =
      Some \<lparr>u_id = 3, u_username = ''bea'', u_verified = 0, u_is_admin = 0\<rparr>"
    by (simp add: ex_defs eval_defs)
  have u': "get_user_by_username ex_reserved ''bea'' =
      Some \<lparr>u_id = 3, u_username = ''bea'', u_verified = 0, u_is_admin = 0\<rparr>"
    by (simp add: ex_defs eval_defs)
  have c: "get_car_by_id ex_db 1 = Some \<lparr>c_id = 1, c_user_id = 2, c_status = ''active''\<rparr>"
    by (simp add: ex_defs eval_defs)
  have c': "get_car_by_id ex_reserved 1 =
      Some \<lparr>c_id = 1, c_user_id = 2, c_status = ''completed''\<rparr>"
    by (simp add: ex_defs eval_defs)
  have f: "favorite_pairs ex_db = {}"
    by (simp add: favorite_pairs_def ex_db_def)
  note r = toggle_favorite_self_inverse[OF u, of 1 "''2024-05-01T09:00:00''"
      "''2024-05-01T09:00:05''", THEN conjunct2, rule_format, of
      "\<lparr>c_id = 1, c_user_id = 2, c_status = ''active''\<rparr>"]
  have one: "favorite_pairs (snd (toggle_favorite ex_db ''bea'' 1 ''2024-05-01T09:00:00'')) =
      {(3, 1)}"
    using r c f by simp
  have two: "favorite_pairs (snd (toggle_favorite
        (snd (toggle_favorite ex_db ''bea'' 1 ''2024-05-01T09:00:00''))
        ''bea'' 1 ''2024-05-01T09:00:05'')) = {}"
    using r c f by simp
  have no: "toggle_favorite ex_reserved ''bea'' 1 ''2024-05-01T11:00:00'' =
        (Failed NotFound, ex_reserved)"
    using toggle_favorite_self_inverse[OF u', of 1 "''2024-05-01T11:00:00''",
        THEN conjunct1] c'
    by simp
  show ?thesis by (intro conjI u c f one two c' no)
qed

section \<open>Threads\<close>

lemma find_append_new:
  "find P xs = None \<Longrightarrow> P x \<Longrightarrow> find P (xs @ [x]) = Some x"
  by (induction xs) (auto split: if_splits)

lemma find_None_not_mem: "find P xs = None \<Longrightarrow> x \<in> set xs \<Longrightarrow> \<not> P x"
  by (induction xs) (auto split: if_splits)

lemma get_or_create_thread_again:
  "get_or_create_thread (snd (get_or_create_thread s c se b now)) c se b now2 =
     get_or_create_thread s c se b now"
proof (cases "find (\<lambda>t. th_car_id t = c \<and> th_seller_id t = se \<and> th_buyer_id t = b) (threads s)")
  case (Some row)
  then show ?thesis by (simp add: get_or_create_thread_def)
next
  case None
  let ?new = "\<lparr>th_id = new_rowid (threads_seq s) (map th_id (threads s)), th_car_id = c,
               th_seller_id = se, th_buyer_id = b, th_created_at = now\<rparr>"
  have "find (\<lambda>t. th_car_id t = c \<and> th_seller_id t = se \<and> th_buyer_id t = b)
          (threads s @ [?new]) = Some ?new"
    using None by (rule find_append_new) simp
  with None show ?thesis by (simp add: get_or_create_thread_def Let_def)
qed

lemma threads_unique_get_or_create:
  "threads_unique s \<Longrightarrow> threads_unique (snd (get_or_create_thread s c se b now))"
proof (cases "find (\<lambda>t. th_car_id t = c \<and> th_seller_id t = se \<and> th_buyer_id t = b) (threads s)")
  case (Some row)
  then show "threads_unique s \<Longrightarrow> ?thesis" by (simp add: get_or_create_thread_def)
next
  case None
  then have "(c, se, b) \<notin> (\<lambda>t. (th_car_id t, th_seller_id t, th_buyer_id t)) ` set (threads s)"
    using find_None_not_mem[OF None] by auto
  with None show "threads_unique s \<Longrightarrow> ?thesis"
    by (simp add: get_or_create_thread_def Let_def threads_unique_def)
qed

lemma get_or_create_thread_row:
  "list_ex (\<lambda>t. th_id t = fst (get_or_create_thread s c se b now) \<and> th_car_id t = c
                 \<and> th_seller_id t = se \<and> th_buyer_id t = b)
     (threads (snd (get_or_create_thread s c se b now)))"
proof (cases "find (\<lambda>t. th_car_id t = c \<and> th_seller_id t = se \<and> th_buyer_id t = b) (threads s)")
  case (Some row)
  from find_Some_mem[OF Some] Some show ?thesis
    by (auto simp: get_or_create_thread_def list_ex_iff)
next
  case None
  then show ?thesis by (simp add: get_or_create_thread_def Let_def)
qed

lemma threads_step_other:
  "threads (snd (complete_car s u c b now)) = threads s"
  "threads (snd (confirm_transaction s u t)) = threads s"
  "threads (snd (cancel_transaction s u t)) = threads s"
  "threads (snd (rate_transaction s u t r a co p cm now)) = threads s"
  "threads (snd (admin_delete_rating s u ri)) = threads s"
  "threads (snd (remove_car_record s c)) = threads s"
  "threads (snd (delete_car s u c)) = threads s"
  "threads (snd (admin_delete_car s u cf)) = threads s"
  "threads (snd (verify_seller s u a)) = threads s"
  "threads (snd (admin_verify_user s u i v)) = threads s"
  "threads (snd (message_thread_post s u t bo now)) = threads s"
  "threads (snd (message_thread_get s u t now)) = threads s"
  "threads (snd (toggle_favorite s u c now)) = threads s"
  by (auto simp: complete_car_def confirm_transaction_def cancel_transaction_def
      rate_transaction_def admin_delete_rating_def remove_car_record_def delete_car_def
      admin_delete_car_def verify_seller_def admin_verify_user_def
      message_thread_post_def message_thread_get_def toggle_favorite_def Let_def
      split: option.splits)

lemma threads_unique_step: "threads_unique s \<Longrightarrow> threads_unique (step s req)"
proof (cases req)
  case (NewMessage u c now)
  then show "threads_unique s \<Longrightarrow> ?thesis"
    by (auto simp: new_message_def Let_def threads_unique_get_or_create
        split: option.splits prod.splits)
       (metis snd_conv threads_unique_get_or_create)
qed (simp_all add: threads_unique_def threads_step_other)

lemma threads_unique_run: "threads_unique s \<Longrightarrow> threads_unique (run s rs)"
  by (induction rs arbitrary: s) (simp_all add: threads_unique_step)

text \<open>
  Claim C8. A second call of \<^verbatim>\<open>get_or_create_thread\<close> with the same listing, seller
  and buyer returns the thread id of the first call and leaves the database exactly as
  the first call left it, so it creates no row; the id that is returned is the id of a
  thread with that triple. If no two threads share their triple before a call, none do
  after it, nor after any sequence of requests; the database that \<^verbatim>\<open>init_db\<close> creates
  has no thread at all.
\<close>

theorem get_or_create_thread_idempotent:
  "fst (get_or_create_thread (snd (get_or_create_thread s c se b now)) c se b now2) =
     fst (get_or_create_thread s c se b now)
   \<and> snd (get_or_create_thread (snd (get_or_create_thread s c se b now)) c se b now2) =
     snd (get_or_create_thread s c se b now)
   \<and> list_ex (\<lambda>t. th_id t = fst (get_or_create_thread s c se b now) \<and> th_car_id t = c
                 \<and> th_seller_id t = se \<and> th_buyer_id t = b)
        (threads (snd (get_or_create_thread s c se b now)))
   \<and> (threads_unique s \<longrightarrow> threads_unique (snd (get_or_create_thread s c se b now)))
   \<and> (threads_unique s \<longrightarrow> threads_unique (run s rs))
   \<and> threads_unique init_db"
proof -
  have "threads_unique init_db" by (simp add: threads_unique_def init_db_def)
  then show ?thesis
    using get_or_create_thread_row[of s c se b now]
    by (simp add: get_or_create_thread_again threads_unique_get_or_create threads_unique_run)
qed

text \<open>
  The theorem at the example: \<open>bea\<close> opens a thread on the listing, \<open>cy\<close> opens another,
  and \<open>bea\<close> asks for hers again.
\<close>

theorem get_or_create_thread_idempotent_witness:
  "threads_unique ex_db
   \<and> fst (get_or_create_thread ex_db 1 2 3 ''2024-04-30T18:00:00'') = 1
   \<and> fst (get_or_create_thread (snd (get_or_create_thread ex_db 1 2 3 ''2024-04-30T18:00:00''))
          1 2 3 ''2024-04-30T19:30:00'') = 1
   \<and> length (threads (snd (get_or_create_thread
          (snd (get_or_create_thread ex_db 1 2 3 ''2024-04-30T18:00:00''))
          1 2 3 ''2024-04-30T19:30:00''))) = 1
   \<and> threads_unique (run ex_db
         [NewMessage ''bea'' ''1'' ''2024-04-30T18:00:00'',
          NewMessage ''cy'' ''1'' ''2024-04-30T18:20:00'',
          NewMessage ''bea'' ''1'' ''2024-04-30T19:30:00''])"
proof -
  note r = get_or_create_thread_idempotent[of ex_db 1 2 3 "''2024-04-30T18:00:00''"
      "''2024-04-30T19:30:00''"
      "[NewMessage ''bea'' ''1'' ''2024-04-30T18:00:00'',
        NewMessage ''cy'' ''1'' ''2024-04-30T18:20:00'',
        NewMessage ''bea'' ''1'' ''2024-04-30T19:30:00'']"]
  have q: "threads_unique ex_db"
    by (simp add: threads_unique_def ex_db_def)
  have one: "get_or_create_thread ex_db 1 2 3 ''2024-04-30T18:00:00'' =
      (1, ex_db\<lparr>threads := [\<lparr>th_id = 1, th_car_id = 1, th_seller_id = 2, th_buyer_id = 3,
                               th_created_at = ''2024-04-30T18:00:00''\<rparr>],
                 threads_seq := 1\<rparr>)"
    by (simp add: get_or_create_thread_def new_rowid_def ex_db_def)
  have a: "fst (get_or_create_thread ex_db 1 2 3 ''2024-04-30T18:00:00'') = 1"
    by (simp add: one)
  have b: "fst (get_or_create_thread
          (snd (get_or_create_thread ex_db 1 2 3 ''2024-04-30T18:00:00''))
          1 2 3 ''2024-04-30T19:30:00'') = 1"
    using r[THEN conjunct1] a by simp
  have c: "length (threads (snd (get_or_create_thread
          (snd (get_or_create_thread ex_db 1 2 3 ''2024-04-30T18:00:00''))
          1 2 3 ''2024-04-30T19:30:00''))) = 1"
    unfolding r[THEN conjunct2, THEN conjunct1] by (simp add: one)
  have d: "threads_unique (run ex_db
         [NewMessage ''bea'' ''1'' ''2024-04-30T18:00:00'',
          NewMessage ''cy'' ''1'' ''2024-04-30T18:20:00'',
          NewMessage ''bea'' ''1'' ''2024-04-30T19:30:00''])"
    using r[THEN conjunct2, THEN conjunct2, THEN conjunct2, THEN conjunct2, THEN conjunct1] q
    by (rule mp)
  show ?thesis by (intro conjI q a b c d)
qed

section \<open>Opening a thread\<close>

lemma mark_read_all_read:
  "list_all (\<lambda>m. m_thread_id m = tid \<and> m_recipient_id m = uid \<longrightarrow> m_read_at m \<noteq> None)
     (mark_read tid uid now ms)"
  by (induction ms) (auto simp: mark_read_def)

text \<open>
  Claim C7. For a logged-in viewer, \<^verbatim>\<open>message_thread\<close> (method \<^verbatim>\<open>GET\<close>) is refused as
  \<open>NotFound\<close>, leaving the database as it was, when the thread does not exist or the
  viewer is neither its seller nor its buyer. When the viewer is a party, the only
  change to the database is that the messages of the thread that are addressed to the
  viewer and have no read timestamp get the one timestamp \<open>now\<close>; afterwards no message
  of the thread addressed to the viewer is unread; and the list that is returned holds
  exactly the messages of the thread, as they are after the update, in ascending order
  of their creation time.
\<close>

theorem message_thread_get_effect:
  assumes user: "get_user_by_username s username = Some user"
  shows
   "(get_thread s thread_id = None
       \<or> (\<exists>th. get_thread s thread_id = Some th \<and> th_seller_id th \<noteq> u_id user
                \<and> th_buyer_id th \<noteq> u_id user) \<longrightarrow>
      message_thread_get s username thread_id now = (Inl NotFound, s))
    \<and> (\<forall>th. get_thread s thread_id = Some th
              \<and> (th_seller_id th = u_id user \<or> th_buyer_id th = u_id user) \<longrightarrow>
         snd (message_thread_get s username thread_id now) =
           s\<lparr>messages :=
               map (\<lambda>m. if m_thread_id m = thread_id \<and> m_recipient_id m = u_id user
                              \<and> m_read_at m = None
                         then m\<lparr>m_read_at := Some now\<rparr> else m) (messages s)\<rparr>
         \<and> list_all (\<lambda>m. m_thread_id m = thread_id \<and> m_recipient_id m = u_id user \<longrightarrow>
                          m_read_at m \<noteq> None)
               (messages (snd (message_thread_get s username thread_id now)))
         \<and> (\<exists>ms. fst (message_thread_get s username thread_id now) = Inr ms
                \<and> sorted (map m_created_at ms)
                \<and> mset ms =
                    mset (filter (\<lambda>m. m_thread_id m = thread_id)
                           (messages (snd (message_thread_get s username thread_id now))))))"
proof -
  have refuse: "get_thread s thread_id = None
       \<or> (\<exists>th. get_thread s thread_id = Some th \<and> th_seller_id th \<noteq> u_id user
                \<and> th_buyer_id th \<noteq> u_id user) \<longrightarrow>
      message_thread_get s username thread_id now = (Inl NotFound, s)"
    using user by (auto simp: message_thread_get_def)
  have ok: "snd (message_thread_get s username thread_id now) =
           s\<lparr>messages :=
               map (\<lambda>m. if m_thread_id m = thread_id \<and> m_recipient_id m = u_id user
                              \<and> m_read_at m = None
                         then m\<lparr>m_read_at := Some now\<rparr> else m) (messages s)\<rparr>
         \<and> list_all (\<lambda>m. m_thread_id m = thread_id \<and> m_recipient_id m = u_id user \<longrightarrow>
                          m_read_at m \<noteq> None)
               (messages (snd (message_thread_get s username thread_id now)))
         \<and> (\<exists>ms. fst (message_thread_get s username thread_id now) = Inr ms
                \<and> sorted (map m_created_at ms)
                \<and> mset ms =
                    mset (filter (\<lambda>m. m_thread_id m = thread_id)
                           (messages (snd (message_thread_get s username thread_id now)))))"
    if th: "get_thread s thread_id = Some th"
      and party: "th_seller_id th = u_id user \<or> th_buyer_id th = u_id user" for th
  proof -
    let ?ms' = "mark_read thread_id (u_id user) now (messages s)"
    have run: "message_thread_get s username thread_id now =
        (Inr (thread_messages thread_id ?ms'), s\<lparr>messages := ?ms'\<rparr>)"
      using user th party by (auto simp: message_thread_get_def Let_def)
    have a: "snd (message_thread_get s username thread_id now) =
           s\<lparr>messages :=
               map (\<lambda>m. if m_thread_id m = thread_id \<and> m_recipient_id m = u_id user
                              \<and> m_read_at m = None
                         then m\<lparr>m_read_at := Some now\<rparr> else m) (messages s)\<rparr>"
      by (simp add: run mark_read_def)
    have b: "list_all (\<lambda>m. m_thread_id m = thread_id \<and> m_recipient_id m = u_id user \<longrightarrow>
                          m_read_at m \<noteq> None)
               (messages (snd (message_thread_get s username thread_id now)))"
      using mark_read_all_read[of thread_id "u_id user" now "messages s"] by (simp add: run)
    have c: "sorted (map m_created_at (thread_messages thread_id ?ms'))"
      by (simp add: thread_messages_def)
    have d: "mset (thread_messages thread_id ?ms') =
              mset (filter (\<lambda>m. m_thread_id m = thread_id)
                (messages (snd (message_thread_get s username thread_id now))))"
      by (simp add: run thread_messages_def)
    have e: "fst (message_thread_get s username thread_id now) =
              Inr (thread_messages thread_id ?ms')"
      by (simp add: run)
    from a b c d e show ?thesis by blast
  qed
  from refuse ok show ?thesis by blast
qed

text \<open>
  The theorem at the example conversation: \<open>sam\<close> opens the thread and both questions of
  \<open>bea\<close> are marked read with the same timestamp, while the answer keeps the timestamp
  at which \<open>bea\<close> read it; \<open>cy\<close> is no party to the thread and is refused.
\<close>

theorem message_thread_get_effect_witness:
  "get_user_by_username ex_chat ''sam'' =
      Some \<lparr>u_id = 2, u_username = ''sam'', u_verified = 0, u_is_admin = 0\<rparr>
   \<and> get_thread ex_chat 1 =
      Some \<lparr>th_id = 1, th_car_id = 1, th_seller_id = 2, th_buyer_id = 3,
            th_created_at = ''2024-04-30T18:00:00''\<rparr>
   \<and> map m_read_at (messages ex_chat) = [None, Some ''2024-04-30T18:06:10'', None]
   \<and> map m_read_at (messages (snd (message_thread_get ex_chat ''sam'' 1 ''2024-04-30T20:00:00''))) =
       [Some ''2024-04-30T20:00:00'', Some ''2024-04-30T18:06:10'', Some ''2024-04-30T20:00:00'']
   \<and> (\<exists>ms. fst (message_thread_get ex_chat ''sam'' 1 ''2024-04-30T20:00:00'') = Inr ms
          \<and> sorted (map m_created_at ms)
          \<and> mset ms = mset (filter (\<lambda>m. m_thread_id m = 1)
               (messages (snd (message_thread_get ex_chat ''sam'' 1 ''2024-04-30T20:00:00'')))))
   \<and> message_thread_get ex_chat ''cy'' 1 ''2024-04-30T20:00:00'' = (Inl NotFound, ex_chat)"
proof -
  have u: "get_user_by_username ex_chat ''sam'' =
      Some \<lparr>u_id = 2, u_username = ''sam'', u_verified = 0, u_is_admin = 0\<rparr>"
    by (simp add: ex_chat_def ex_db_def eval_defs msg_defs)
  have u': "get_user_by_username ex_chat ''cy'' =
      Some \<lparr>u_id = 4, u_username = ''cy'', u_verified = 0, u_is_admin = 0\<rparr>"
    by (simp add: ex_chat_def ex_db_def eval_defs msg_defs)
  have th: "get_thread ex_chat 1 =
      Some \<lparr>th_id = 1, th_car_id = 1, th_seller_id = 2, th_buyer_id = 3,
            th_created_at = ''2024-04-30T18:00:00''\<rparr>"
    by (simp add: ex_chat_def ex_db_def eval_defs msg_defs)
  have ms: "map m_read_at (messages ex_chat) = [None, Some ''2024-04-30T18:06:10'', None]"
      "map m_thread_id (messages ex_chat) = [1, 1, 1]"
      "map m_recipient_id (messages ex_chat) = [2, 3, 2]"
    by (simp_all add: ex_chat_def ex_db_def eval_defs msg_defs)
  have party: "get_thread ex_chat 1 =
      Some \<lparr>th_id = 1, th_car_id = 1, th_seller_id = 2, th_buyer_id = 3,
            th_created_at = ''2024-04-30T18:00:00''\<rparr>
     \<and> (th_seller_id \<lparr>th_id = 1, th_car_id = 1, th_seller_id = 2, th_buyer_id = 3,
            th_created_at = ''2024-04-30T18:00:00''\<rparr> =
          u_id \<lparr>u_id = 2, u_username = ''sam'', u_verified = 0, u_is_admin = 0\<rparr>
        \<or> th_buyer_id \<lparr>th_id = 1, th_car_id = 1, th_seller_id = 2, th_buyer_id = 3,
            th_created_at = ''2024-04-30T18:00:00''\<rparr> =
          u_id \<lparr>u_id = 2, u_username = ''sam'', u_verified = 0, u_is_admin = 0\<rparr>)"
    using th by simp
  note r = message_thread_get_effect[OF u, of 1 "''2024-04-30T20:00:00''", THEN conjunct2,
      rule_format, OF party]
  have a: "map m_read_at
       (messages (snd (message_thread_get ex_chat ''sam'' 1 ''2024-04-30T20:00:00''))) =
       [Some ''2024-04-30T20:00:00'', Some ''2024-04-30T18:06:10'', Some ''2024-04-30T20:00:00'']"
  proof -
    obtain m1 m2 m3 where l: "messages ex_chat = [m1, m2, m3]"
      using ms(1) by auto
    with ms show ?thesis unfolding r[THEN conjunct1] by simp
  qed
  have b: "\<exists>ms. fst (message_thread_get ex_chat ''sam'' 1 ''2024-04-30T20:00:00'') = Inr ms
          \<and> sorted (map m_created_at ms)
          \<and> mset ms = mset (filter (\<lambda>m. m_thread_id m = 1)
               (messages (snd (message_thread_get ex_chat ''sam'' 1 ''2024-04-30T20:00:00''))))"
    by (rule r[THEN conjunct2, THEN conjunct2])
  have c: "message_thread_get ex_chat ''cy'' 1 ''2024-04-30T20:00:00'' = (Inl NotFound, ex_chat)"
    using message_thread_get_effect[OF u', of 1 "''2024-04-30T20:00:00''", THEN conjunct1] th
    by simp
  show ?thesis by (intro conjI u th ms(1) a b c)
qed

section \<open>The verified flag\<close>

lemma verified_ids_set_verified:
  "v \<noteq> 0 \<Longrightarrow>
   u_id ` set (filter (\<lambda>u. u_verified u \<noteq> 0) us)
     \<subseteq> u_id ` set (filter (\<lambda>u. u_verified u \<noteq> 0) (set_verified uid v us))"
  by (induction us) (auto simp: set_verified_def)

lemma set_verified_member:
  "u \<in> set us \<Longrightarrow> u_id u = uid \<Longrightarrow> v \<noteq> 0 \<Longrightarrow>
   uid \<in> u_id ` set (filter (\<lambda>u. u_verified u \<noteq> 0) (set_verified uid v us))"
  by (induction us) (auto simp: set_verified_def)

lemma users_step_other:
  "users (snd (complete_car s u c b now)) = users s"
  "users (snd (confirm_transaction s u t)) = users s"
  "users (snd (cancel_transaction s u t)) = users s"
  "users (snd (rate_transaction s u t r a co p cm now)) = users s"
  "users (snd (admin_delete_rating s u ri)) = users s"
  "users (snd (remove_car_record s c)) = users s"
  "users (snd (delete_car s u c)) = users s"
  "users (snd (admin_delete_car s u cf)) = users s"
  "users (snd (new_message s u ca now)) = users s"
  "users (snd (message_thread_post s u t bo now)) = users s"
  "users (snd (message_thread_get s u t now)) = users s"
  "users (snd (toggle_favorite s u c now)) = users s"
  by (auto simp: complete_car_def confirm_transaction_def cancel_transaction_def
      rate_transaction_def admin_delete_rating_def remove_car_record_def delete_car_def
      admin_delete_car_def new_message_def get_or_create_thread_def
      message_thread_post_def message_thread_get_def toggle_favorite_def Let_def
      split: option.splits prod.splits)

lemma verified_ids_verify_seller:
  "verified_ids s \<subseteq> verified_ids (snd (verify_seller s u a))"
  using verified_ids_set_verified[of 1]
  by (auto simp: verify_seller_def verified_ids_def split: option.splits)

lemma verified_ids_step:
  "\<not> is_admin_verify req \<Longrightarrow> verified_ids s \<subseteq> verified_ids (step s req)"
proof (cases req)
  case (VerifySeller u a)
  then show ?thesis using verified_ids_verify_seller[of s u a] by simp
qed (simp_all add: verified_ids_def users_step_other)

lemma verified_ids_run:
  "list_all (\<lambda>r. \<not> is_admin_verify r) rs \<Longrightarrow> verified_ids s \<subseteq> verified_ids (run s rs)"
proof (induction rs arbitrary: s)
  case Nil
  show ?case by simp
next
  case (Cons r rs)
  then have "verified_ids s \<subseteq> verified_ids (step s r)"
    and "verified_ids (step s r) \<subseteq> verified_ids (run (step s r) rs)"
    using verified_ids_step[of r s] by simp_all
  then show ?case by simp
qed

text \<open>
  Claim C9, as amended. For a logged-in caller, \<^verbatim>\<open>verify_seller\<close> sets the caller's
  verified flag exactly when the caller agrees and is the seller of at least five
  completed transactions; otherwise it is refused and leaves the database as it was.
  No request other than \<^verbatim>\<open>admin_verify_user\<close> ever unsets a verified flag, nor does any
  sequence of such requests. \<^verbatim>\<open>admin_verify_user\<close>, called by an administrator with a
  numeric user id, writes the submitted value: 1 for the text \<^verbatim>\<open>1\<close>, and 0 for anything
  else.
\<close>

theorem verify_seller_effect:
  assumes user: "get_user_by_username s username = Some user"
  shows
   "(agree = ''yes'' \<and> 5 \<le> completed_sales s (u_id user) \<longrightarrow>
       verify_seller s username agree =
         (Done, s\<lparr>users := map (\<lambda>u. if u_id u = u_id user then u\<lparr>u_verified := 1\<rparr> else u)
                              (users s)\<rparr>)
       \<and> u_id user \<in> verified_ids (snd (verify_seller s username agree)))
    \<and> (\<not> (agree = ''yes'' \<and> 5 \<le> completed_sales s (u_id user)) \<longrightarrow>
         fst (verify_seller s username agree) \<noteq> Done
         \<and> snd (verify_seller s username agree) = s)
    \<and> (\<not> is_admin_verify req \<longrightarrow> verified_ids s3 \<subseteq> verified_ids (step s3 req))
    \<and> (list_all (\<lambda>r. \<not> is_admin_verify r) rs \<longrightarrow> verified_ids s3 \<subseteq> verified_ids (run s3 rs))
    \<and> (admin_required (get_user_by_username s3 admin) \<and> py_isdigit (py_strip user_id_field) \<longrightarrow>
         admin_verify_user s3 admin user_id_field value_field =
           (Done,
            s3\<lparr>users := map (\<lambda>u. if u_id u = py_int (py_strip user_id_field)
                                  then u\<lparr>u_verified := (if py_strip value_field = ''1'' then 1 else 0)\<rparr>
                                  else u) (users s3)\<rparr>))"
proof -
  have mem: "user \<in> set (users s)"
    using user find_Some_mem[of "\<lambda>u. u_username u = username" "users s" user]
    by (simp add: get_user_by_username_def split: if_splits)
  have grant: "agree = ''yes'' \<and> 5 \<le> completed_sales s (u_id user) \<longrightarrow>
       verify_seller s username agree =
         (Done, s\<lparr>users := map (\<lambda>u. if u_id u = u_id user then u\<lparr>u_verified := 1\<rparr> else u)
                              (users s)\<rparr>)
       \<and> u_id user \<in> verified_ids (snd (verify_seller s username agree))"
    using user set_verified_member[OF mem, of "u_id user" 1]
    by (auto simp: verify_seller_def verified_ids_def set_verified_def)
  have refuse: "\<not> (agree = ''yes'' \<and> 5 \<le> completed_sales s (u_id user)) \<longrightarrow>
         fst (verify_seller s username agree) \<noteq> Done
         \<and> snd (verify_seller s username agree) = s"
    using user by (auto simp: verify_seller_def)
  have mono: "\<not> is_admin_verify req \<longrightarrow> verified_ids s3 \<subseteq> verified_ids (step s3 req)"
    using verified_ids_step by blast
  have mono': "list_all (\<lambda>r. \<not> is_admin_verify r) rs \<longrightarrow>
         verified_ids s3 \<subseteq> verified_ids (run s3 rs)"
    using verified_ids_run by blast
  have admin: "admin_required (get_user_by_username s3 admin)
        \<and> py_isdigit (py_strip user_id_field) \<longrightarrow>
         admin_verify_user s3 admin user_id_field value_field =
           (Done,
            s3\<lparr>users := map (\<lambda>u. if u_id u = py_int (py_strip user_id_field)
                                  then u\<lparr>u_verified := (if py_strip value_field = ''1'' then 1 else 0)\<rparr>
                                  else u) (users s3)\<rparr>)"
    by (simp add: admin_verify_user_def Let_def set_verified_def)
  show ?thesis by (intro conjI grant refuse mono mono' admin)
qed

text \<open>
  The theorem at the examples: with five completed sales \<open>sam\<close> is verified on
  agreeing and refused on not agreeing; without sales \<open>sam\<close> is refused; and the flag
  survives a cancellation, a refused verification and the removal of a listing.
\<close>

theorem verify_seller_effect_witness:
  "get_user_by_username ex_sales ''sam'' =
      Some \<lparr>u_id = 2, u_username = ''sam'', u_verified = 0, u_is_admin = 0\<rparr>
   \<and> completed_sales ex_sales 2 = 5
   \<and> fst (verify_seller ex_sales ''sam'' ''yes'') = Done
   \<and> 2 \<in> verified_ids ex_verified
   \<and> completed_sales ex_db 2 = 0
   \<and> fst (verify_seller ex_db ''sam'' ''yes'') \<noteq> Done
   \<and> snd (verify_seller ex_db ''sam'' ''yes'') = ex_db
   \<and> snd (verify_seller ex_sales ''sam'' ''no'') = ex_sales
   \<and> verified_ids ex_verified \<subseteq> verified_ids (run ex_verified
        [CancelTransaction ''sam'' 1, VerifySeller ''sam'' ''no'', RemoveCarRecord 2])"
proof -
  have u: "get_user_by_username ex_sales ''sam'' =
      Some \<lparr>u_id = 2, u_username = ''sam'', u_verified = 0, u_is_admin = 0\<rparr>"
    by (simp add: ex_sales_def ex_db_def eval_defs)
  have u': "get_user_by_username ex_db ''sam'' =
      Some \<lparr>u_id = 2, u_username = ''sam'', u_verified = 0, u_is_admin = 0\<rparr>"
    by (simp add: ex_db_def eval_defs)
  have n: "completed_sales ex_sales 2 = 5"
    by (simp add: completed_sales_def ex_sales_def ex_db_def)
  have n': "completed_sales ex_db 2 = 0"
    by (simp add: completed_sales_def ex_db_def)
  have pre: "''yes'' = ''yes'' \<and> 5 \<le> completed_sales ex_sales
      (u_id \<lparr>u_id = 2, u_username = ''sam'', u_verified = 0, u_is_admin = 0\<rparr>)"
    using n by simp
  note grant = verify_seller_effect[OF u, of "''yes''", THEN conjunct1, THEN mp, OF pre]
  have a: "fst (verify_seller ex_sales ''sam'' ''yes'') = Done"
    using grant[THEN conjunct1] by simp
  have b: "2 \<in> verified_ids ex_verified"
    using grant[THEN conjunct2] by (simp add: ex_verified_def)
  note refuse = verify_seller_effect[OF u', of "''yes''", THEN conjunct2, THEN conjunct1]
  have c: "fst (verify_seller ex_db ''sam'' ''yes'') \<noteq> Done"
    using refuse n' by simp
  have d: "snd (verify_seller ex_db ''sam'' ''yes'') = ex_db"
    using refuse n' by simp
  have e: "snd (verify_seller ex_sales ''sam'' ''no'') = ex_sales"
    using verify_seller_effect[OF u, of "''no''", THEN conjunct2, THEN conjunct1] by simp
  have f: "verified_ids ex_verified \<subseteq> verified_ids (run ex_verified
        [CancelTransaction ''sam'' 1, VerifySeller ''sam'' ''no'', RemoveCarRecord 2])"
    using verify_seller_effect[OF u, of "''yes''" _ ex_verified
        "[CancelTransaction ''sam'' 1, VerifySeller ''sam'' ''no'', RemoveCarRecord 2]",
        THEN conjunct2, THEN conjunct2, THEN conjunct2, THEN conjunct1]
    by simp
  show ?thesis by (intro conjI u n a b n' c d e f)
qed

text \<open>
  Claim C9 as stated fails on both counts. The administrator unsets the flag that \<open>sam\<close>
  earned with five completed sales, and sets the flag of \<open>bea\<close>, who has sold nothing
  and has not asked.
\<close>

theorem verified_flag_counterexample:
  "completed_sales ex_sales 2 = 5
   \<and> fst (verify_seller ex_sales ''sam'' ''yes'') = Done
   \<and> verified_ids ex_verified = {1, 2}
   \<and> fst (admin_verify_user ex_verified ''admin'' ''2'' ''0'') = Done
   \<and> verified_ids (snd (admin_verify_user ex_verified ''admin'' ''2'' ''0'')) = {1}
   \<and> completed_sales ex_db 3 = 0
   \<and> verified_ids ex_db = {1}
   \<and> fst (admin_verify_user ex_db ''admin'' ''3'' ''1'') = Done
   \<and> verified_ids (snd (admin_verify_user ex_db ''admin'' ''3'' ''1'')) = {1, 3}"
  by (simp add: ex_verified_def ex_sales_def ex_db_def eval_defs step_defs verified_ids_def)

end
